theory Spec2Isabelle
  imports Complex_Main "HOL-Library.AList"
begin

section \<open>JavaScript values\<close>

text \<open>
  The configuration file, the tag listing of the local endpoint and the chat responses
  are decoded JSON, typed \<open>any\<close> at run time. They are modelled as trees. An object
  is the list of its own enumerable properties in insertion order, every key once;
  \<open>JUndefined\<close> is what a read of a missing property gives (the JSON decoder never
  produces it). A string is the list of its code units; Isabelle's \<open>char\<close> covers
  the code units below 256.
\<close>

datatype jsval =
    JUndefined
  | JNull
  | JBool bool
  | JNum rat
  | JStr string
  | JArr "jsval list"
  | JObj "(string \<times> jsval) list"

type_synonym jsobject = "(string \<times> jsval) list"

text \<open>
  Errors as values. \<open>Error m\<close> is \<open>new Error(m)\<close> as this program throws it;
  \<open>SyntaxError\<close> is what \<open>JSON.parse\<close> and \<open>response.json()\<close> throw on text
  that is not JSON; \<open>TypeError\<close> is what the engine throws on a property read of
  \<open>null\<close> or \<open>undefined\<close> and on a call of something that is not a function;
  \<open>External m\<close> is a failure reported by a collaborator (git, the shell, the network,
  a provider's client library).
\<close>

datatype js_error = Error string | SyntaxError | TypeError | External string

text \<open>
  The result of a piece of code: a value, a thrown error, or \<open>Unmodelled\<close> where a
  value outside the declared TypeScript type reaches an operation whose behaviour on it
  this development does not describe (a template path that is not a string handed to
  \<open>Bun.file\<close>, a \<open>templates\<close> field that is a string or an array under
  \<open>for ... in\<close> with \<open>delete\<close>). No \<open>catch\<close> of the model catches
  \<open>Unmodelled\<close>.
\<close>

datatype 'a result = Ok 'a | Throw js_error | Unmodelled

fun truthy :: "jsval \<Rightarrow> bool" where
  "truthy JUndefined = False"
| "truthy JNull = False"
| "truthy (JBool b) = b"
| "truthy (JNum x) = (x \<noteq> 0)"
| "truthy (JStr s) = (s \<noteq> [])"
| "truthy (JArr xs) = True"
| "truthy (JObj kvs) = True"

text \<open>\<open>a || b\<close> on values.\<close>

definition js_or :: "jsval \<Rightarrow> jsval \<Rightarrow> jsval" where
  "js_or a b = (if truthy a then a else b)"

text \<open>The canonical decimal string of an array index.\<close>

definition digit_char :: "nat \<Rightarrow> char" where
  "digit_char d = char_of (48 + d)"

function index_key :: "nat \<Rightarrow> string" where
  "index_key n = (if n < 10 then [digit_char n] else index_key (n div 10) @ [digit_char (n mod 10)])"
  by pat_completeness auto
termination
  by (relation "measure id") auto

declare index_key.simps [simp del]

text \<open>
  The own enumerable properties of a value, as object spread and \<open>for ... in\<close> see
  them: the entries of an object, the indexed elements of an array, the indexed code
  units of a string, nothing for the other values.
\<close>

fun own_enumerable :: "jsval \<Rightarrow> jsobject" where
  "own_enumerable (JObj kvs) = kvs"
| "own_enumerable (JArr xs) = map (\<lambda>i. (index_key i, xs ! i)) [0..<length xs]"
| "own_enumerable (JStr s) = map (\<lambda>i. (index_key i, JStr [s ! i])) [0..<length s]"
| "own_enumerable v = []"

text \<open>
  \<open>Object.prototype.hasOwnProperty.call(v, key)\<close>: \<open>null\<close> and \<open>undefined\<close>
  cannot be converted to an object; arrays and strings also own \<open>length\<close>.
\<close>

fun has_own :: "jsval \<Rightarrow> string \<Rightarrow> bool result" where
  "has_own JUndefined key = Throw TypeError"
| "has_own JNull key = Throw TypeError"
| "has_own (JArr xs) key = Ok (key = ''length'' \<or> key \<in> fst ` set (own_enumerable (JArr xs)))"
| "has_own (JStr s) key = Ok (key = ''length'' \<or> key \<in> fst ` set (own_enumerable (JStr s)))"
| "has_own v key = Ok (key \<in> fst ` set (own_enumerable v))"

text \<open>
  \<open>v.key\<close> and \<open>v[key]\<close>. The program reads the properties \<open>models\<close>,
  \<open>tags\<close>, \<open>name\<close>, \<open>model\<close>, \<open>tag\<close>, \<open>message\<close>, \<open>content\<close>,
  \<open>choices\<close>, \<open>0\<close>, \<open>data\<close>, \<open>id\<close>, \<open>default\<close> and the fields of the
  configuration, none of which the built-in prototypes define, and a template name only
  after \<open>hasOwnProperty\<close> has answered true; so a read is a read of an own property.
\<close>

fun get_prop :: "jsval \<Rightarrow> string \<Rightarrow> jsval result" where
  "get_prop JUndefined key = Throw TypeError"
| "get_prop JNull key = Throw TypeError"
| "get_prop (JArr xs) key =
     Ok (if key = ''length'' then JNum (of_nat (length xs))
         else case map_of (own_enumerable (JArr xs)) key of None \<Rightarrow> JUndefined | Some v \<Rightarrow> v)"
| "get_prop (JStr s) key =
     Ok (if key = ''length'' then JNum (of_nat (length s))
         else case map_of (own_enumerable (JStr s)) key of None \<Rightarrow> JUndefined | Some v \<Rightarrow> v)"
| "get_prop v key = Ok (case map_of (own_enumerable v) key of None \<Rightarrow> JUndefined | Some v' \<Rightarrow> v')"

text \<open>A field of an object that is known to be one (the configuration).\<close>

definition field :: "jsobject \<Rightarrow> string \<Rightarrow> jsval" where
  "field obj key = (case map_of obj key of None \<Rightarrow> JUndefined | Some v \<Rightarrow> v)"

text \<open>
  \<open>{...a, ...v}\<close>: the properties of \<open>v\<close> are assigned onto a copy of \<open>a\<close> one
  after the other; an assignment to a key that is there keeps its place, a new key goes
  to the end. (JavaScript enumerates keys that are array indices before the others;
  that reordering is left out, and nothing below depends on the place of such a key.)
\<close>

definition assign_all :: "jsobject \<Rightarrow> jsobject \<Rightarrow> jsobject" where
  "assign_all obj kvs = fold (\<lambda>(k, v) acc. AList.update k v acc) kvs obj"

definition spread :: "jsobject \<Rightarrow> jsval \<Rightarrow> jsobject" where
  "spread a v = assign_all a (own_enumerable v)"

section \<open>Strings\<close>

text \<open>
  \<open>String.prototype.trim\<close> strips white space and line terminators from both ends.
  Of those, the code units below 256 are TAB, LF, VT, FF, CR, SP and NBSP.
\<close>

definition is_js_space :: "char \<Rightarrow> bool" where
  "is_js_space c = (of_char c \<in> {9, 10, 11, 12, 13, 32, 160 :: nat})"

definition trim :: "string \<Rightarrow> string" where
  "trim s = rev (dropWhile is_js_space (rev (dropWhile is_js_space s)))"

text \<open>\<open>s.indexOf(pat)\<close>, with \<open>None\<close> for -1.\<close>

fun indexOf :: "string \<Rightarrow> string \<Rightarrow> nat option" where
  "indexOf [] pat = (if pat = [] then Some 0 else None)"
| "indexOf (c # cs) pat =
     (if take (length pat) (c # cs) = pat then Some 0 else map_option Suc (indexOf cs pat))"

text \<open>
  \<open>GetSubstitution\<close> of ECMAScript, for a search value that is a string (no capture
  groups): in the replacement text \<open>$$\<close> stands for a dollar sign, \<open>$&\<close> for the
  matched text, \<open>$`\<close> for the text before the match, \<open>$'\<close> for the text after
  it; a dollar sign followed by anything else stands for itself.
\<close>

fun GetSubstitution :: "string \<Rightarrow> string \<Rightarrow> string \<Rightarrow> string \<Rightarrow> string" where
  "GetSubstitution matched preceding following [] = []"
| "GetSubstitution matched preceding following [c] = [c]"
| "GetSubstitution matched preceding following (c # d # rest) =
     (if c = CHR ''$'' \<and> d = CHR ''$'' then CHR ''$'' # GetSubstitution matched preceding following rest
      else if c = CHR ''$'' \<and> d = CHR ''&'' then matched @ GetSubstitution matched preceding following rest
      else if c = CHR ''$'' \<and> d = CHR 0x60 then preceding @ GetSubstitution matched preceding following rest
      else if c = CHR ''$'' \<and> d = CHR 0x27 then following @ GetSubstitution matched preceding following rest
      else c # GetSubstitution matched preceding following (d # rest))"

text \<open>\<open>str.replace(pat, repl)\<close> with a string \<open>pat\<close>: the first occurrence only.\<close>

definition js_replace :: "string \<Rightarrow> string \<Rightarrow> string \<Rightarrow> string" where
  "js_replace str pat repl =
     (case indexOf str pat of
        None \<Rightarrow> str
      | Some pos \<Rightarrow>
          take pos str
          @ GetSubstitution pat (take pos str) (drop (pos + length pat) str) repl
          @ drop (pos + length pat) str)"

text \<open>\<open>endpoint.replace(/\/$/, "")\<close>: one slash at the very end is removed.\<close>

definition strip_trailing_slash :: "string \<Rightarrow> string" where
  "strip_trailing_slash s = (if s \<noteq> [] \<and> last s = CHR ''/'' then butlast s else s)"

text \<open>Line 84 of \<open>run.ts\<close>: \<open>template.replace("{{diff}}", diff)\<close>.\<close>

definition render_template :: "string \<Rightarrow> string \<Rightarrow> string" where
  "render_template template diff = js_replace template ''{{diff}}'' diff"

section \<open>Collaborators and effects\<close>

text \<open>
  What the program reaches outside itself, as parameters: the home directory and
  \<open>path.join\<close>, the JSON decoder and encoder, the HTTP client, the shell, git, and
  the two providers' client libraries. An awaited collaborator resolves or rejects.
  \<open>ollama_chat model messages\<close> is \<open>ollama.chat\<close> on the library's default
  client: the call takes no host from this program. \<open>openai_chat apiKey model messages\<close>
  is \<open>chat.completions.create\<close> on a client built from \<open>apiKey\<close>;
  building the client is taken not to throw for a truthy key.
\<close>

datatype 'a answer = Resolves 'a | Rejects js_error

record response =
  ok :: bool
  json :: "jsval option"

record env =
  homedir :: string
  path_join :: "string \<Rightarrow> string \<Rightarrow> string"
  JSON_parse :: "string \<Rightarrow> jsval option"
  JSON_stringify :: "jsval \<Rightarrow> string"
  fetch :: "string \<Rightarrow> response answer"
  shell_pwd :: "string answer"
  git_diff_cached :: "string \<Rightarrow> string answer"
  ollama_chat :: "jsval \<Rightarrow> (string \<times> string) list \<Rightarrow> jsval answer"
  openai_chat :: "jsval \<Rightarrow> jsval \<Rightarrow> (string \<times> string) list \<Rightarrow> jsval answer"
  openai_models_list :: "jsval \<Rightarrow> jsval answer"

text \<open>
  The file system maps a path to the text of the file there. \<open>Bun.file(p).exists()\<close>
  is \<open>fs p \<noteq> None\<close>, \<open>Bun.file(p).text()\<close> is the text, \<open>Bun.write(p, s)\<close>
  is \<open>fs(p \<mapsto> s)\<close>; a write is taken to succeed.
\<close>

type_synonym files = "string \<rightharpoonup> string"

text \<open>
  The objects of the configuration. The module creates one object
  \<open>DEFAULT_CONFIG\<close>, and one \<open>templates\<close> object that it refers to; both live as
  long as the process, and the code hands out references to them and changes them in
  place. So the state of a process is a store: the file system, the fields of the
  module object as they stand, and a map from addresses to the objects that can be
  reached from more than one place. The value of a field is either \<open>Plain\<close>, a
  value that only this field holds, or \<open>Shared\<close>, a reference to an object of the
  store. A configuration in the hands of a caller is a reference to the module object
  itself, or an object created by the call, held by the caller alone.
\<close>

type_synonym addr = nat

datatype cval = Plain jsval | Shared addr

type_synonym config_fields = "(string \<times> cval) list"

datatype config_ref = Module | Fresh config_fields

record store =
  files :: files
  module_config :: config_fields
  shared :: "addr \<Rightarrow> jsobject"

text \<open>What a field, and a whole configuration, reads as in a store.\<close>

definition cval_value :: "(addr \<Rightarrow> jsobject) \<Rightarrow> cval \<Rightarrow> jsval" where
  "cval_value heap c = (case c of Plain v \<Rightarrow> v | Shared a \<Rightarrow> JObj (heap a))"

definition fields_value :: "(addr \<Rightarrow> jsobject) \<Rightarrow> config_fields \<Rightarrow> jsobject" where
  "fields_value heap props = map (\<lambda>entry. (fst entry, cval_value heap (snd entry))) props"

definition fields_of :: "store \<Rightarrow> config_ref \<Rightarrow> config_fields" where
  "fields_of st config = (case config of Module \<Rightarrow> module_config st | Fresh props \<Rightarrow> props)"

definition config_value :: "store \<Rightarrow> config_ref \<Rightarrow> jsobject" where
  "config_value st config = fields_value (shared st) (fields_of st config)"

text \<open>\<open>config[key] = c\<close> on the object that \<open>config\<close> refers to.\<close>

definition set_field :: "store \<Rightarrow> config_ref \<Rightarrow> string \<Rightarrow> cval \<Rightarrow> config_ref \<times> store" where
  "set_field st config key c =
     (case config of
        Module \<Rightarrow> (Module, st\<lparr>module_config := AList.update key c (module_config st)\<rparr>)
      | Fresh props \<Rightarrow> (Fresh (AList.update key c props), st))"

text \<open>
  What an observer sees of a run: the console lines and the calls to the collaborators
  that leave the process. A console line is kept as the pieces it is built from, so
  that no rendering of a value or of an error is invented: \<open>S\<close> a string,
  \<open>V\<close> a value interpolated or passed, \<open>E\<close> an error interpolated or passed,
  \<open>M\<close> the \<open>message\<close> of an error, \<open>Pretty\<close> a value through
  \<open>JSON.stringify(v, null, 2)\<close>.
\<close>

datatype piece = S string | V jsval | E js_error | M js_error | Pretty jsval

datatype event =
    ConsoleDebug "piece list"
  | ConsoleError "piece list"
  | ConsoleLog "piece list"
  | GitDiffCached string
  | Fetch string
  | OllamaChat jsval "(string \<times> string) list"
  | OpenAIChat jsval jsval "(string \<times> string) list"
  | OpenAIModelsList jsval

text \<open>
  How a piece of code stops other than by going on: \<open>process.exit(code)\<close>, a thrown
  error (a rejected promise), or \<open>NotModelled\<close> (see \<open>Unmodelled\<close>).
\<close>

datatype outcome = Exit nat | Threw js_error | NotModelled

datatype 'a step = Next 'a | Halt outcome

type_synonym 'a io = "event list \<times> 'a step"

definition rbind :: "'a result \<Rightarrow> ('a \<Rightarrow> 'b result) \<Rightarrow> 'b result" where
  "rbind r f = (case r of Ok a \<Rightarrow> f a | Throw e \<Rightarrow> Throw e | Unmodelled \<Rightarrow> Unmodelled)"

definition io_return :: "'a \<Rightarrow> 'a io" where
  "io_return a = ([], Next a)"

definition io_bind :: "'a io \<Rightarrow> ('a \<Rightarrow> 'b io) \<Rightarrow> 'b io" where
  "io_bind m f =
     (case snd m of
        Next a \<Rightarrow> (fst m @ fst (f a), snd (f a))
      | Halt out \<Rightarrow> (fst m, Halt out))"

definition emit :: "event \<Rightarrow> unit io" where
  "emit e = ([e], Next ())"

definition halt :: "outcome \<Rightarrow> 'a io" where
  "halt out = ([], Halt out)"

definition lift_result :: "'a result \<Rightarrow> 'a io" where
  "lift_result r =
     (case r of
        Ok a \<Rightarrow> ([], Next a)
      | Throw e \<Rightarrow> ([], Halt (Threw e))
      | Unmodelled \<Rightarrow> ([], Halt NotModelled))"

text \<open>\<open>await\<close> of a collaborator's promise.\<close>

definition await :: "'a answer \<Rightarrow> 'a io" where
  "await a = (case a of Resolves x \<Rightarrow> ([], Next x) | Rejects e \<Rightarrow> ([], Halt (Threw e)))"

text \<open>\<open>try { m } catch (error) { h error }\<close>.\<close>

definition io_catch :: "'a io \<Rightarrow> (js_error \<Rightarrow> 'a io) \<Rightarrow> 'a io" where
  "io_catch m h =
     (case snd m of
        Halt (Threw e) \<Rightarrow> (fst m @ fst (h e), snd (h e))
      | _ \<Rightarrow> m)"

text \<open>The events that are a line on the console.\<close>

fun is_console :: "event \<Rightarrow> bool" where
  "is_console (ConsoleDebug ps) = True"
| "is_console (ConsoleError ps) = True"
| "is_console (ConsoleLog ps) = True"
| "is_console e = False"

text \<open>The events that are a request to a provider or to the network.\<close>

fun is_request :: "event \<Rightarrow> bool" where
  "is_request (Fetch url) = True"
| "is_request (OllamaChat model messages) = True"
| "is_request (OpenAIChat apiKey model messages) = True"
| "is_request (OpenAIModelsList apiKey) = True"
| "is_request e = False"

definition console_error :: "piece list \<Rightarrow> unit io" where
  "console_error ps = emit (ConsoleError ps)"

definition console_log :: "piece list \<Rightarrow> unit io" where
  "console_log ps = emit (ConsoleLog ps)"

section \<open>config.ts\<close>

definition configPath :: "env \<Rightarrow> string" where
  "configPath env = path_join env (homedir env) ''.bunnai''"

definition DEFAULT_CONFIG :: "env \<Rightarrow> jsobject" where
  "DEFAULT_CONFIG env =
     [(''provider'', JStr ''openai''),
      (''OPENAI_API_KEY'', JStr []),
      (''model'', JStr ''gpt-4-0125-preview''),
      (''ollama_endpoint'', JStr ''http://localhost:11434''),
      (''ollama_model'', JStr ''gemma3:4b''),
      (''templates'', JObj [(''default'', JStr (path_join env (homedir env) ''.bunnai-template''))])]"

text \<open>
  \<open>DEFAULT_CONFIG env\<close> is the value of the literal of lines 79 to 88. The store of
  a process that has just loaded the module holds the two objects the literal creates:
  the module object, and its \<open>templates\<close> object at \<open>templates_addr\<close>.
\<close>

definition templates_addr :: addr where
  "templates_addr = 0"

definition module_loaded :: "env \<Rightarrow> files \<Rightarrow> store" where
  "module_loaded env fs =
     \<lparr>files = fs,
      module_config =
        [(''provider'', Plain (JStr ''openai'')),
         (''OPENAI_API_KEY'', Plain (JStr [])),
         (''model'', Plain (JStr ''gpt-4-0125-preview'')),
         (''ollama_endpoint'', Plain (JStr ''http://localhost:11434'')),
         (''ollama_model'', Plain (JStr ''gemma3:4b'')),
         (''templates'', Shared templates_addr)],
      shared = (\<lambda>a. [])(templates_addr :=
        [(''default'', JStr (path_join env (homedir env) ''.bunnai-template''))])\<rparr>"

text \<open>
  Assigning entries in turn to the fields of an object; an entry holds a tree or a
  reference to a shared object.
\<close>

definition assign_fields :: "config_fields \<Rightarrow> config_fields \<Rightarrow> config_fields" where
  "assign_fields props kvs =
     fold (\<lambda>entry acc. AList.update (fst entry) (snd entry) acc) kvs props"

text \<open>The properties of a value that shares nothing, such as a value just decoded.\<close>

definition plain_entries :: "jsobject \<Rightarrow> config_fields" where
  "plain_entries kvs = map (\<lambda>entry. (fst entry, Plain (snd entry))) kvs"

text \<open>
  \<open>readConfigFile\<close> returns the object \<open>DEFAULT_CONFIG\<close> itself when there is no
  file (line 93). Otherwise it returns \<open>{...DEFAULT_CONFIG, ...config}\<close> (lines 99 to
  102): a new object with the fields of the module object as they stand, a shared object
  staying shared, and the properties of the decoded value assigned on top. So the new
  object still shares the \<open>templates\<close> object of the module when the file brings
  none of its own.
\<close>

definition readConfigFile :: "env \<Rightarrow> store \<Rightarrow> config_ref result" where
  "readConfigFile env st =
     (case files st (configPath env) of
        None \<Rightarrow> Ok Module
      | Some configString \<Rightarrow>
          (case JSON_parse env configString of
             None \<Rightarrow> Throw SyntaxError
           | Some config \<Rightarrow> Ok (Fresh (assign_fields (module_config st) (plain_entries (own_enumerable config))))))"

text \<open>
  \<open>await readConfigFile()\<close> for a caller that only reads the fields (\<open>run\<close>,
  \<open>getModels\<close>): the configuration as it reads in the store at that moment.
\<close>

definition load_config :: "env \<Rightarrow> store \<Rightarrow> jsobject result" where
  "load_config env st = rbind (readConfigFile env st) (\<lambda>config. Ok (config_value st config))"

text \<open>\<open>validateKeys\<close> checks against \<open>Object.keys(DEFAULT_CONFIG)\<close> as they stand.\<close>

fun validateKeys :: "store \<Rightarrow> string list \<Rightarrow> unit result" where
  "validateKeys st [] = Ok ()"
| "validateKeys st (key # keys) =
     (if key \<notin> set (map fst (module_config st))
      then Throw (Error (''Invalid config property: '' @ key))
      else validateKeys st keys)"

text \<open>
  The loop of \<open>cleanUpTemplates\<close> over the entries of \<open>config.templates\<close>: an
  entry whose file is missing is deleted.
\<close>

fun prune_entries :: "files \<Rightarrow> jsobject \<Rightarrow> jsobject result" where
  "prune_entries fs [] = Ok []"
| "prune_entries fs ((templateName, templatePath) # rest) =
     (case templatePath of
        JStr p \<Rightarrow>
          rbind (prune_entries fs rest)
            (\<lambda>rest'. Ok (if fs p = None then rest' else (templateName, templatePath) # rest'))
      | _ \<Rightarrow> Unmodelled)"

text \<open>
  \<open>cleanUpTemplates\<close> deletes from the object that \<open>config.templates\<close> refers to
  (line 120) and returns the reference it was given. When that object is a shared one,
  the store changes, for every holder of a reference to it.
\<close>

definition cleanUpTemplates :: "store \<Rightarrow> config_ref \<Rightarrow> config_ref result \<times> store" where
  "cleanUpTemplates st config =
     (case map_of (fields_of st config) ''templates'' of
        None \<Rightarrow> (Ok config, st)
      | Some (Shared a) \<Rightarrow>
          (case prune_entries (files st) (shared st a) of
             Ok ts' \<Rightarrow> (Ok config, st\<lparr>shared := (shared st)(a := ts')\<rparr>)
           | Throw e \<Rightarrow> (Throw e, st)
           | Unmodelled \<Rightarrow> (Unmodelled, st))
      | Some (Plain (JObj ts)) \<Rightarrow>
          (case prune_entries (files st) ts of
             Ok ts' \<Rightarrow>
               (Ok (fst (set_field st config ''templates'' (Plain (JObj ts')))),
                snd (set_field st config ''templates'' (Plain (JObj ts'))))
           | Throw e \<Rightarrow> (Throw e, st)
           | Unmodelled \<Rightarrow> (Unmodelled, st))
      | Some (Plain v) \<Rightarrow> (if own_enumerable v = [] then Ok config else Unmodelled, st))"


text \<open>
  The loop of \<open>setConfigs\<close> (lines 133 to 136): \<open>config[key] = value\<close> for every
  entry in turn, on the object \<open>config\<close> refers to. A value is a tree, or a
  reference to a shared object (line 295 passes \<open>config.templates\<close>).
\<close>

fun assign_entries :: "store \<Rightarrow> config_ref \<Rightarrow> config_fields \<Rightarrow> config_ref \<times> store" where
  "assign_entries st config [] = (config, st)"
| "assign_entries st config (entry # rest) =
     assign_entries (snd (set_field st config (fst entry) (snd entry)))
       (fst (set_field st config (fst entry) (snd entry))) rest"

text \<open>
  \<open>setConfigs\<close> returns nothing; the model returns how it ended and the store it
  leaves: the file system, and the module object when that is the one it assigned to.
\<close>

definition setConfigs :: "env \<Rightarrow> store \<Rightarrow> config_fields \<Rightarrow> unit result \<times> store" where
  "setConfigs env st keyValues =
     (case readConfigFile env st of
        Ok config \<Rightarrow>
          (case validateKeys st (map fst keyValues) of
             Ok u \<Rightarrow>
               (let assigned = assign_entries st config keyValues
                in (Ok (),
                    (snd assigned)\<lparr>files := (files st)(configPath env \<mapsto>
                       JSON_stringify env (JObj (config_value (snd assigned) (fst assigned))))\<rparr>))
           | Throw e \<Rightarrow> (Throw e, st)
           | Unmodelled \<Rightarrow> (Unmodelled, st))
      | Throw e \<Rightarrow> (Throw e, st)
      | Unmodelled \<Rightarrow> (Unmodelled, st))"

text \<open>
  \<open>showConfigUI\<close>: the whole body stands in one \<open>try\<close>, whose \<open>catch\<close> (lines
  316 to 318) prints the message of the error and lets the function return. \<open>menu\<close>
  is the interactive part (lines 145 to 314), which runs on the pruned configuration
  in the store that the pruning has left, and may change the store in turn.
\<close>

definition show_error :: "js_error \<Rightarrow> unit io" where
  "show_error error = console_error [S [CHR 0x0A], M error, S [CHR 0x0A]]"

definition showConfigUI ::
  "env \<Rightarrow> store \<Rightarrow> (config_ref \<Rightarrow> store \<Rightarrow> unit io \<times> store) \<Rightarrow> unit io \<times> store" where
  "showConfigUI env st menu =
     (case readConfigFile env st of
        Ok loaded \<Rightarrow>
          (case fst (cleanUpTemplates st loaded) of
             Ok config \<Rightarrow>
               (io_catch (fst (menu config (snd (cleanUpTemplates st loaded)))) show_error,
                snd (menu config (snd (cleanUpTemplates st loaded))))
           | Throw e \<Rightarrow> (show_error e, snd (cleanUpTemplates st loaded))
           | Unmodelled \<Rightarrow> (halt NotModelled, snd (cleanUpTemplates st loaded)))
      | Throw e \<Rightarrow> (show_error e, st)
      | Unmodelled \<Rightarrow> (halt NotModelled, st))"

text \<open>\<open>xs.map(f)\<close> where \<open>f\<close> may throw.\<close>

fun map_entries :: "(jsval \<Rightarrow> jsval result) \<Rightarrow> jsval list \<Rightarrow> jsval list result" where
  "map_entries f [] = Ok []"
| "map_entries f (x # xs) = rbind (f x) (\<lambda>y. rbind (map_entries f xs) (\<lambda>ys. Ok (y # ys)))"

text \<open>\<open>m.name || m[alt] || ""\<close>.\<close>

definition entry_name :: "string \<Rightarrow> jsval \<Rightarrow> jsval result" where
  "entry_name alt m =
     rbind (get_prop m ''name'')
       (\<lambda>n. if truthy n then Ok n
            else rbind (get_prop m alt) (\<lambda>a. Ok (js_or a (JStr []))))"

text \<open>The normalisation of the decoded tag listing (lines 327 to 337).\<close>

definition normalize_tags :: "jsval \<Rightarrow> jsval list result" where
  "normalize_tags data =
     rbind (get_prop data ''models'')
       (\<lambda>models. case models of
          JArr ms \<Rightarrow> rbind (map_entries (entry_name ''model'') ms) (\<lambda>names. Ok (filter truthy names))
        | _ \<Rightarrow>
          rbind (get_prop data ''tags'')
            (\<lambda>tags. case tags of
               JArr ts \<Rightarrow> rbind (map_entries (entry_name ''tag'') ts) (\<lambda>names. Ok (filter truthy names))
             | _ \<Rightarrow> Ok []))"

text \<open>The address of the tag listing: \<open>`${endpoint.replace(/\/$/, "")}/api/tags`\<close>.\<close>

definition tags_url :: "string \<Rightarrow> string" where
  "tags_url endpoint = strip_trailing_slash endpoint @ ''/api/tags''"

text \<open>
  The body of the \<open>try\<close> of \<open>getOllamaModels\<close>. An endpoint that is not a string
  has no \<open>replace\<close> method.
\<close>

definition getOllamaModels_try :: "env \<Rightarrow> jsval \<Rightarrow> jsval list io" where
  "getOllamaModels_try env endpoint =
     (case endpoint of
        JStr s \<Rightarrow>
          io_bind (emit (Fetch (tags_url s)))
            (\<lambda>u. io_bind (await (fetch env (tags_url s)))
            (\<lambda>response.
               if \<not> ok response
               then halt (Threw (Error ''Failed to fetch models from Ollama endpoint''))
               else (case json response of
                       None \<Rightarrow> halt (Threw SyntaxError)
                     | Some data \<Rightarrow> lift_result (normalize_tags data))))
      | _ \<Rightarrow> halt (Threw TypeError))"

definition getOllamaModels :: "env \<Rightarrow> jsval \<Rightarrow> jsval list io" where
  "getOllamaModels env endpoint =
     io_catch (getOllamaModels_try env endpoint)
       (\<lambda>e. io_bind (console_error [S ''Error fetching Ollama models:'', E e]) (\<lambda>u. io_return []))"

definition getModels :: "env \<Rightarrow> store \<Rightarrow> jsval list io" where
  "getModels env st =
     io_bind (lift_result (load_config env st))
       (\<lambda>config.
          if field config ''provider'' = JStr ''ollama'' then
            io_bind
              (getOllamaModels env
                 (js_or (field config ''ollama_endpoint'') (JStr ''http://localhost:11434'')))
              (\<lambda>models. io_return
                 (if length models > 0 then models
                  else [js_or (field config ''ollama_model'') (JStr ''gemma3:4b'')]))
          else if \<not> truthy (field config ''OPENAI_API_KEY'')
          then halt (Threw (Error ''OPENAI_API_KEY is not set''))
          else
            io_bind (emit (OpenAIModelsList (field config ''OPENAI_API_KEY'')))
              (\<lambda>u. io_bind (await (openai_models_list env (field config ''OPENAI_API_KEY'')))
              (\<lambda>models. lift_result
                 (rbind (get_prop models ''data'')
                    (\<lambda>data. case data of
                       JArr xs \<Rightarrow> map_entries (\<lambda>model. get_prop model ''id'') xs
                     | _ \<Rightarrow> Throw TypeError)))))"

section \<open>run.ts\<close>

record RunOptions =
  verbose :: bool

text \<open>\<open>if (options.verbose) console.debug(...)\<close>.\<close>

definition debug :: "RunOptions \<Rightarrow> piece list \<Rightarrow> unit io" where
  "debug options ps = (if verbose options then emit (ConsoleDebug ps) else io_return ())"

definition getStagedDiff :: "env \<Rightarrow> string \<Rightarrow> string io" where
  "getStagedDiff env target_dir =
     io_bind (emit (GitDiffCached target_dir))
       (\<lambda>u. io_catch (await (git_diff_cached env target_dir))
          (\<lambda>error. io_bind (console_error [S ''Error getting git diff:'', E error])
             (\<lambda>u. halt (Threw error))))"

text \<open>
  The stages of \<open>run\<close>, in the order of the source. Lines 29 to 51: the path of the
  template. \<open>templateName\<close> is optional, and an empty name is falsy.
\<close>

definition default_template_path :: "RunOptions \<Rightarrow> jsobject \<Rightarrow> jsval io" where
  "default_template_path options config =
     io_bind (lift_result (get_prop (field config ''templates'') ''default''))
       (\<lambda>templateFilePath. io_bind (debug options [S ''Using default template.''])
          (\<lambda>u. io_return templateFilePath))"

definition named_template_path :: "RunOptions \<Rightarrow> jsobject \<Rightarrow> string \<Rightarrow> jsval io" where
  "named_template_path options config templateName =
     io_bind (lift_result (has_own (field config ''templates'') templateName))
       (\<lambda>own.
          if \<not> own then
            io_bind
              (console_error
                 [S (''Error: Template '' @ [CHR 0x27] @ templateName @ [CHR 0x27]
                     @ '' does not exist in the configuration.'')])
              (\<lambda>u. halt (Exit 1))
          else
            io_bind (lift_result (get_prop (field config ''templates'') templateName))
              (\<lambda>templateFilePath. io_bind (debug options [S (''Using template: '' @ templateName)])
                 (\<lambda>u. io_return templateFilePath)))"

definition template_path :: "RunOptions \<Rightarrow> jsobject \<Rightarrow> string option \<Rightarrow> jsval io" where
  "template_path options config templateName =
     (case templateName of
        None \<Rightarrow> default_template_path options config
      | Some name \<Rightarrow>
          if name = [] then default_template_path options config
          else named_template_path options config name)"

text \<open>Lines 53 to 67: the text of the template file.\<close>

definition read_template :: "files \<Rightarrow> RunOptions \<Rightarrow> jsval \<Rightarrow> string io" where
  "read_template fs options templateFilePath =
     (case templateFilePath of
        JStr p \<Rightarrow>
          (case fs p of
             None \<Rightarrow>
               io_bind
                 (console_error
                    [S (''Error: The template file '' @ [CHR 0x27] @ p @ [CHR 0x27]
                        @ '' does not exist.'')])
                 (\<lambda>u. halt (Exit 1))
           | Some template \<Rightarrow>
               io_bind (debug options [S (''Template file found: '' @ p)])
                 (\<lambda>u. io_bind (debug options [S ''Template file read successfully.''])
                    (\<lambda>u. io_return template)))
      | _ \<Rightarrow> halt NotModelled)"

text \<open>Lines 69 to 72: the working directory.\<close>

definition working_directory :: "env \<Rightarrow> RunOptions \<Rightarrow> string io" where
  "working_directory env options =
     io_bind (await (shell_pwd env))
       (\<lambda>out. io_bind (debug options [S (''Target directory: '' @ trim out)])
          (\<lambda>u. io_return (trim out)))"

text \<open>Lines 74 to 82: the staged diff, which must not be blank.\<close>

definition staged_diff :: "env \<Rightarrow> RunOptions \<Rightarrow> string \<Rightarrow> string io" where
  "staged_diff env options target_dir =
     io_bind (getStagedDiff env target_dir)
       (\<lambda>diff. io_bind (debug options [S (''Git diff retrieved:'' @ [CHR 0x0A]), S diff])
          (\<lambda>u. if length (trim diff) = 0
               then io_bind (console_error [S (''No changes to commit in '' @ target_dir)])
                      (\<lambda>u. halt (Exit 1))
               else io_return diff))"

text \<open>\<open>response.message?.content\<close>.\<close>

definition message_content :: "jsval \<Rightarrow> jsval result" where
  "message_content response =
     rbind (get_prop response ''message'')
       (\<lambda>message. if message = JUndefined \<or> message = JNull then Ok JUndefined
                  else get_prop message ''content'')"

text \<open>\<open>response.choices[0].message.content\<close>.\<close>

definition first_choice_content :: "jsval \<Rightarrow> jsval result" where
  "first_choice_content response =
     rbind (get_prop response ''choices'')
       (\<lambda>choices. rbind (get_prop choices ''0'')
          (\<lambda>choice. rbind (get_prop choice ''message'')
             (\<lambda>message. get_prop message ''content'')))"

text \<open>\<open>content.trim()\<close> on a truthy value: only a string has the method.\<close>

definition trim_method :: "jsval \<Rightarrow> string result" where
  "trim_method content = (case content of JStr s \<Rightarrow> Ok (trim s) | _ \<Rightarrow> Throw TypeError)"

text \<open>Lines 89 to 116: the local provider.\<close>

definition dispatch_ollama :: "env \<Rightarrow> RunOptions \<Rightarrow> jsobject \<Rightarrow> string \<Rightarrow> unit io" where
  "dispatch_ollama env options config rendered_template =
     (let endpoint = js_or (field config ''ollama_endpoint'') (JStr ''http://localhost:11434'');
          model = js_or (field config ''ollama_model'') (JStr ''llama3'')
      in io_catch
           (io_bind
              (debug options
                 [S ''Sending request to Ollama at '', V endpoint, S '' with model '', V model,
                  S ''...''])
              (\<lambda>u. io_bind (emit (OllamaChat model [(''user'', rendered_template)]))
              (\<lambda>u. io_bind (await (ollama_chat env model [(''user'', rendered_template)]))
              (\<lambda>response. io_bind (lift_result (message_content response))
              (\<lambda>content.
                 if \<not> truthy content then
                   io_bind (console_error [S ''Failed to generate commit message from Ollama''])
                     (\<lambda>u. halt (Exit 1))
                 else
                   io_bind (lift_result (trim_method content))
                     (\<lambda>trimmed. io_bind (console_log [S trimmed])
                     (\<lambda>u. debug options [S ''Commit message generated and outputted.''])))))))
           (\<lambda>error. io_bind (console_error [S ''Failed to fetch from Ollama: '', E error])
              (\<lambda>u. halt (Exit 1))))"

text \<open>Lines 118 to 169: the cloud provider.\<close>

definition system_prompt :: string where
  "system_prompt =
     ''You are a commit message generator. I will provide you with a git diff, and I would like you to generate an appropriate commit message using the conventional commit format. Do not write any explanations or other words, just reply with the commit message.''"

definition dispatch_openai :: "env \<Rightarrow> RunOptions \<Rightarrow> jsobject \<Rightarrow> string \<Rightarrow> unit io" where
  "dispatch_openai env options config rendered_template =
     (if \<not> truthy (field config ''OPENAI_API_KEY'') then
        io_bind (console_error [S ''OPENAI_API_KEY is not set'']) (\<lambda>u. halt (Exit 1))
      else if \<not> truthy (field config ''model'') then
        io_bind (console_error [S ''Model is not set'']) (\<lambda>u. halt (Exit 1))
      else
        io_catch
          (io_bind (debug options [S ''Sending request to OpenAI...''])
             (\<lambda>u. io_bind
                (emit (OpenAIChat (field config ''OPENAI_API_KEY'') (field config ''model'')
                   [(''system'', system_prompt), (''user'', rendered_template)]))
             (\<lambda>u. io_bind
                (await (openai_chat env (field config ''OPENAI_API_KEY'') (field config ''model'')
                   [(''system'', system_prompt), (''user'', rendered_template)]))
             (\<lambda>response. io_bind (debug options [S ''Response received from OpenAI.''])
             (\<lambda>u. io_bind (debug options [Pretty response])
             (\<lambda>u. io_bind (lift_result (first_choice_content response))
             (\<lambda>content.
                if \<not> truthy content then
                  io_bind (console_error [S ''Failed to generate commit message''])
                    (\<lambda>u. halt (Exit 1))
                else
                  io_bind (lift_result (trim_method content))
                    (\<lambda>trimmed. io_bind (console_log [S trimmed])
                    (\<lambda>u. debug options [S ''Commit message generated and outputted.''])))))))))
          (\<lambda>error. io_bind (console_error [S ''Failed to fetch from openai: '', E error])
             (\<lambda>u. halt (Exit 1))))"

definition dispatch :: "env \<Rightarrow> RunOptions \<Rightarrow> jsobject \<Rightarrow> string \<Rightarrow> unit io" where
  "dispatch env options config rendered_template =
     (if field config ''provider'' = JStr ''ollama''
      then dispatch_ollama env options config rendered_template
      else dispatch_openai env options config rendered_template)"

definition run :: "env \<Rightarrow> store \<Rightarrow> RunOptions \<Rightarrow> string option \<Rightarrow> unit io" where
  "run env st options templateName =
     io_bind (lift_result (load_config env st))
       (\<lambda>config. io_bind (debug options [S ''Configuration loaded successfully.''])
       (\<lambda>u. io_bind (template_path options config templateName)
       (\<lambda>templateFilePath. io_bind (read_template (files st) options templateFilePath)
       (\<lambda>template. io_bind (working_directory env options)
       (\<lambda>target_dir. io_bind (staged_diff env options target_dir)
       (\<lambda>diff. io_bind (debug options [S ''Template rendered with git diff.''])
       (\<lambda>u. dispatch env options config (render_template template diff))))))))"

section \<open>Example environments\<close>

text \<open>
  Concrete collaborators and file systems on which the theorems below are run. The
  decoder of the examples decodes the two configuration texts they use and rejects
  every other text; their encoder writes strings as they are, between quotes, and
  \<open>null\<close> for the numbers, which the examples do not use. \<open>idle_menu\<close> is a user who does nothing; \<open>api_key_menu\<close> is
  a user who picks the API key and types one (lines 205 to 210, then the exit of line
  311).
\<close>

definition example_parse :: "string \<Rightarrow> jsval option" where
  \<open>example_parse s =
     (if s = ''{"model":"x"}'' then Some (JObj [(''model'', JStr ''x'')])
      else if s = ''{"provider":"ollama","ollama_model":""}''
      then Some (JObj [(''provider'', JStr ''ollama''), (''ollama_model'', JStr [])])
      else None)\<close>

fun join :: "string \<Rightarrow> string list \<Rightarrow> string" where
  "join sep [] = []"
| "join sep [x] = x"
| "join sep (x # y # xs) = x @ sep @ join sep (y # xs)"

fun example_stringify :: "jsval \<Rightarrow> string" where
  "example_stringify (JStr s) = [CHR 0x22] @ s @ [CHR 0x22]"
| "example_stringify (JObj kvs) =
     ''{'' @ join '',''
       (map (\<lambda>entry. [CHR 0x22] @ fst entry @ [CHR 0x22] @ '':'' @ example_stringify (snd entry)) kvs)
     @ ''}''"
| "example_stringify (JArr xs) = ''['' @ join '','' (map example_stringify xs) @ '']''"
| "example_stringify (JBool b) = (if b then ''true'' else ''false'')"
| "example_stringify v = ''null''"

definition example_env :: env where
  "example_env =
     \<lparr>homedir = ''/home/u'',
      path_join = (\<lambda>a b. a @ ''/'' @ b),
      JSON_parse = example_parse,
      JSON_stringify = example_stringify,
      fetch = (\<lambda>url. Rejects (External ''connection refused'')),
      shell_pwd = Resolves (''/repo'' @ [CHR 0x0A]),
      git_diff_cached = (\<lambda>dir. Resolves []),
      ollama_chat = (\<lambda>model messages. Rejects (External ''connection refused'')),
      openai_chat = (\<lambda>apiKey model messages. Rejects (External ''connection refused'')),
      openai_models_list = (\<lambda>apiKey. Rejects (External ''connection refused''))\<rparr>"

definition no_files :: files where
  "no_files = Map.empty"

definition model_x_files :: files where
  \<open>model_x_files = [''/home/u/.bunnai'' \<mapsto> ''{"model":"x"}'']\<close>

definition corrupt_files :: files where
  \<open>corrupt_files = [''/home/u/.bunnai'' \<mapsto> ''{"model":'']\<close>

definition idle_menu :: "config_ref \<Rightarrow> store \<Rightarrow> unit io \<times> store" where
  "idle_menu config st = (io_return (), st)"

definition api_key_menu :: "config_ref \<Rightarrow> store \<Rightarrow> unit io \<times> store" where
  "api_key_menu config st =
     (halt (Exit 0), snd (setConfigs example_env st [(''OPENAI_API_KEY'', Plain (JStr ''sk-1''))]))"

definition template_files :: files where
  \<open>template_files = [''/home/u/.bunnai-template'' \<mapsto> ''msg: {{diff}}'']\<close>

definition fetch_env :: "response answer \<Rightarrow> env" where
  "fetch_env r = example_env\<lparr>fetch := (\<lambda>url. r)\<rparr>"

definition models_body :: jsval where
  "models_body = JObj [(''models'', JArr [JObj [(''name'', JStr ''a'')], JObj [(''model'', JStr ''b'')]])]"

definition tags_body :: jsval where
  "tags_body = JObj [(''tags'', JArr [JObj [(''tag'', JStr ''c'')]])]"

definition quiet_options :: RunOptions where
  "quiet_options = \<lparr>verbose = False\<rparr>"

definition verbose_options :: RunOptions where
  "verbose_options = \<lparr>verbose = True\<rparr>"

definition diff_env :: "string \<Rightarrow> env" where
  "diff_env diff = example_env\<lparr>git_diff_cached := (\<lambda>dir. Resolves diff)\<rparr>"

definition ollama_files :: files where
  \<open>ollama_files =
     [''/home/u/.bunnai'' \<mapsto> ''{"provider":"ollama","ollama_model":""}'',
      ''/home/u/.bunnai-template'' \<mapsto> ''msg: {{diff}}'']\<close>

definition local_config :: "string \<Rightarrow> jsobject" where
  "local_config endpoint =
     [(''provider'', JStr ''ollama''),
      (''OPENAI_API_KEY'', JStr []),
      (''model'', JStr ''gpt-4-0125-preview''),
      (''ollama_endpoint'', JStr endpoint),
      (''ollama_model'', JStr ''gemma3:4b''),
      (''templates'', JObj [(''default'', JStr ''/home/u/.bunnai-template'')])]"

section \<open>Basic facts\<close>

lemma rbind_simps [simp]:
  "rbind (Ok a) f = f a" "rbind (Throw e) f = Throw e" "rbind Unmodelled f = Unmodelled"
  by (simp_all add: rbind_def)

lemma io_bind_simps [simp]:
  "io_bind (es, Next a) f = (es @ fst (f a), snd (f a))"
  "io_bind (es, Halt out) f = (es, Halt out)"
  by (simp_all add: io_bind_def)

lemma io_catch_simps [simp]:
  "io_catch (es, Halt (Threw e)) h = (es @ fst (h e), snd (h e))"
  "io_catch (es, Halt (Exit n)) h = (es, Halt (Exit n))"
  "io_catch (es, Halt NotModelled) h = (es, Halt NotModelled)"
  "io_catch (es, Next a) h = (es, Next a)"
  by (simp_all add: io_catch_def)

lemma lift_result_simps [simp]:
  "lift_result (Ok a) = ([], Next a)"
  "lift_result (Throw e) = ([], Halt (Threw e))"
  "lift_result Unmodelled = ([], Halt NotModelled)"
  by (simp_all add: lift_result_def)

lemma await_simps [simp]:
  "await (Resolves a) = ([], Next a)"
  "await (Rejects e) = ([], Halt (Threw e))"
  by (simp_all add: await_def)

lemma map_of_assign_all:
  "map_of (assign_all obj kvs) key =
     (case map_of (rev kvs) key of Some v \<Rightarrow> Some v | None \<Rightarrow> map_of obj key)"
proof (induction kvs arbitrary: obj)
  case Nil
  then show ?case by (simp add: assign_all_def)
next
  case (Cons kv kvs)
  obtain k v where kv: "kv = (k, v)" by (cases kv)
  have step: "assign_all obj (kv # kvs) = assign_all (AList.update k v obj) kvs"
    by (simp add: assign_all_def kv)
  show ?case
    unfolding step Cons.IH
    by (simp add: kv update_conv' map_add_def split: option.splits)
qed



lemma fields_value_update:
  "fields_value heap (AList.update key c props)
     = AList.update key (cval_value heap c) (fields_value heap props)"
  by (induction props) (auto simp: fields_value_def)

lemma fields_value_plain_entries: "fields_value heap (plain_entries kvs) = kvs"
  by (induction kvs) (simp_all add: fields_value_def plain_entries_def cval_value_def)

lemma fields_value_assign_fields:
  "fields_value heap (assign_fields props kvs)
     = assign_all (fields_value heap props) (fields_value heap kvs)"
proof (induction kvs arbitrary: props)
  case Nil
  then show ?case by (simp add: assign_fields_def assign_all_def fields_value_def)
next
  case (Cons kv kvs)
  have step: "assign_fields props (kv # kvs)
      = assign_fields (AList.update (fst kv) (snd kv) props) kvs"
    by (simp add: assign_fields_def)
  have step': "assign_all (fields_value heap props) (fields_value heap (kv # kvs))
      = assign_all (AList.update (fst kv) (cval_value heap (snd kv)) (fields_value heap props))
          (fields_value heap kvs)"
    by (simp add: assign_all_def fields_value_def)
  show ?case
    unfolding step step' Cons.IH
    by (simp add: fields_value_update)
qed

lemma keys_update_present:
  "key \<in> set (map fst props) \<Longrightarrow> map fst (AList.update key c props) = map fst props"
  by (induction props) auto

lemma keys_assign_fields:
  "\<forall>key \<in> set (map fst kvs). key \<in> set (map fst props) \<Longrightarrow>
     map fst (assign_fields props kvs) = map fst props"
proof (induction kvs arbitrary: props)
  case Nil
  then show ?case by (simp add: assign_fields_def)
next
  case (Cons kv kvs)
  have step: "assign_fields props (kv # kvs)
      = assign_fields (AList.update (fst kv) (snd kv) props) kvs"
    by (simp add: assign_fields_def)
  from Cons.prems have k: "map fst (AList.update (fst kv) (snd kv) props) = map fst props"
    by (simp add: keys_update_present)
  with Cons.prems have "\<forall>key \<in> set (map fst kvs).
      key \<in> set (map fst (AList.update (fst kv) (snd kv) props))"
    by simp
  from Cons.IH [OF this] k show ?case
    unfolding step by simp
qed

lemma config_value_module_loaded:
  "config_value (module_loaded env fs) Module = DEFAULT_CONFIG env"
  by (simp add: config_value_def fields_of_def fields_value_def cval_value_def module_loaded_def
      DEFAULT_CONFIG_def)

lemma files_module_loaded [simp]: "files (module_loaded env fs) = fs"
  by (simp add: module_loaded_def)

lemma keys_module_loaded:
  "map fst (module_config (module_loaded env fs)) = map fst (DEFAULT_CONFIG env)"
  by (simp add: module_loaded_def DEFAULT_CONFIG_def)

lemma load_config_no_file:
  "files st (configPath env) = None \<Longrightarrow> load_config env st = Ok (config_value st Module)"
  by (simp add: load_config_def readConfigFile_def)

lemma load_config_file:
  "files st (configPath env) = Some text \<Longrightarrow> JSON_parse env text = Some loaded \<Longrightarrow>
     load_config env st = Ok (spread (config_value st Module) loaded)"
  by (simp add: load_config_def readConfigFile_def config_value_def fields_of_def spread_def
      fields_value_assign_fields fields_value_plain_entries)

lemma load_config_Throw:
  "readConfigFile env st = Throw e \<Longrightarrow> load_config env st = Throw e"
  by (simp add: load_config_def)

lemma load_config_Ok:
  "readConfigFile env st = Ok config \<Longrightarrow> load_config env st = Ok (config_value st config)"
  by (simp add: load_config_def)

lemma assign_entries_Module:
  "assign_entries st Module kvs
     = (Module, st\<lparr>module_config := assign_fields (module_config st) kvs\<rparr>)"
proof (induction kvs arbitrary: st)
  case Nil
  then show ?case by (simp add: assign_fields_def)
next
  case (Cons kv kvs)
  show ?case
    by (simp add: set_field_def Cons.IH assign_fields_def)
qed

lemma assign_entries_Fresh:
  "assign_entries st (Fresh props) kvs = (Fresh (assign_fields props kvs), st)"
proof (induction kvs arbitrary: props)
  case Nil
  then show ?case by (simp add: assign_fields_def)
next
  case (Cons kv kvs)
  show ?case
    by (simp add: set_field_def Cons.IH assign_fields_def)
qed

lemma assign_entries_value:
  "config_value (snd (assign_entries st config kvs)) (fst (assign_entries st config kvs))
     = assign_all (config_value st config) (fields_value (shared st) kvs)"
  by (cases config)
    (simp_all add: assign_entries_Module assign_entries_Fresh config_value_def fields_of_def
      fields_value_assign_fields)

lemma assign_entries_store:
  "files (snd (assign_entries st config kvs)) = files st"
  "shared (snd (assign_entries st config kvs)) = shared st"
  "module_config (snd (assign_entries st config kvs))
     = (case config of Module \<Rightarrow> assign_fields (module_config st) kvs
        | Fresh props \<Rightarrow> module_config st)"
  by (cases config; simp add: assign_entries_Module assign_entries_Fresh)+

section \<open>Template rendering\<close>

lemma GetSubstitution_no_dollar:
  "CHR ''$'' \<notin> set repl \<Longrightarrow> GetSubstitution matched preceding following repl = repl"
  by (induction matched preceding following repl rule: GetSubstitution.induct) auto

lemma indexOf_None_iff:
  "indexOf s pat = None \<longleftrightarrow> (\<forall>i \<le> length s. take (length pat) (drop i s) \<noteq> pat)"
proof (induction s)
  case Nil
  then show ?case by auto
next
  case (Cons c cs)
  show ?case
  proof
    assume a: "indexOf (c # cs) pat = None"
    then have n0: "take (length pat) (c # cs) \<noteq> pat" and r: "indexOf cs pat = None"
      by (auto split: if_splits)
    from r Cons.IH have ih: "\<forall>i \<le> length cs. take (length pat) (drop i cs) \<noteq> pat"
      by simp
    show "\<forall>i \<le> length (c # cs). take (length pat) (drop i (c # cs)) \<noteq> pat"
    proof (intro allI impI)
      fix i assume "i \<le> length (c # cs)"
      then show "take (length pat) (drop i (c # cs)) \<noteq> pat"
        using n0 ih by (cases i) auto
    qed
  next
    assume a: "\<forall>i \<le> length (c # cs). take (length pat) (drop i (c # cs)) \<noteq> pat"
    then have n0: "take (length pat) (c # cs) \<noteq> pat"
      by (metis drop0 le0)
    have "\<forall>i \<le> length cs. take (length pat) (drop i cs) \<noteq> pat"
    proof (intro allI impI)
      fix i assume "i \<le> length cs"
      then have "Suc i \<le> length (c # cs)" by simp
      with a have "take (length pat) (drop (Suc i) (c # cs)) \<noteq> pat" by blast
      then show "take (length pat) (drop i cs) \<noteq> pat" by simp
    qed
    with Cons.IH have "indexOf cs pat = None" by simp
    with n0 show "indexOf (c # cs) pat = None" by simp
  qed
qed

lemma indexOf_Some_first:
  "indexOf s pat = Some pos \<Longrightarrow>
     pos \<le> length s \<and> take (length pat) (drop pos s) = pat
     \<and> (\<forall>i < pos. take (length pat) (drop i s) \<noteq> pat)"
proof (induction s arbitrary: pos)
  case Nil
  then show ?case by (auto split: if_splits)
next
  case (Cons c cs)
  show ?case
  proof (cases "take (length pat) (c # cs) = pat")
    case True
    with Cons.prems show ?thesis by simp
  next
    case False
    with Cons.prems obtain p where p: "indexOf cs pat = Some p" and pos: "pos = Suc p"
      by auto
    from Cons.IH [OF p] have ih: "p \<le> length cs" "take (length pat) (drop p cs) = pat"
      "\<forall>i < p. take (length pat) (drop i cs) \<noteq> pat"
      by auto
    have "\<forall>i < Suc p. take (length pat) (drop i (c # cs)) \<noteq> pat"
    proof (intro allI impI)
      fix i assume "i < Suc p"
      then show "take (length pat) (drop i (c # cs)) \<noteq> pat"
        using False ih(3) by (cases i) auto
    qed
    with ih pos show ?thesis by simp
  qed
qed

lemma render_template_no_token:
  "indexOf template ''{{diff}}'' = None \<Longrightarrow> render_template template diff = template"
  by (simp add: render_template_def js_replace_def)

lemma render_template_plain_diff:
  "CHR ''$'' \<notin> set diff \<Longrightarrow> indexOf template ''{{diff}}'' = Some pos \<Longrightarrow>
     render_template template diff
       = take pos template @ diff @ drop (pos + length ''{{diff}}'') template"
  by (simp add: render_template_def js_replace_def GetSubstitution_no_dollar)

lemma render_template_examples:
  "render_template ''msg: {{diff}}'' ''D'' = ''msg: D''"
  "render_template ''no token here'' ''D'' = ''no token here''"
  "render_template ''a {{diff}} b {{diff}}'' ''D'' = ''a D b {{diff}}''"
  by (simp_all add: render_template_def js_replace_def)

text \<open>
  C2. The claim: rendering replaces the first occurrence of the token by the diff text
  verbatim, for every template and every diff. The code passes the diff as the
  replacement text of \<open>String.prototype.replace\<close>, which reads dollar patterns in
  it: with the template \<open>msg: {{diff}}\<close> and the staged diff \<open>+pid=$$\<close> the
  rendered prompt is \<open>msg: +pid=$\<close>, one dollar sign short of the diff; and with the
  diff \<open>+x=$&\<close> the token itself comes back in place of \<open>$&\<close>.
\<close>

theorem render_template_dollar_patterns:
  "render_template ''msg: {{diff}}'' ''+pid=$$'' = ''msg: +pid=$''
   \<and> render_template ''msg: {{diff}}'' ''+pid=$$'' \<noteq> ''msg: '' @ ''+pid=$$''
   \<and> render_template ''msg: {{diff}}'' ''+x=$&'' = ''msg: +x={{diff}}''"
  by (simp add: render_template_def js_replace_def)

section \<open>Loading the configuration\<close>

text \<open>
  What the first load of a process returns: the defaults when there is no file, and
  otherwise the defaults with the properties of the decoded value on top. In any
  store, the same holds with the module object as it stands in place of the defaults.
\<close>

lemma first_load_defaults:
  "fs (configPath env) = None \<Longrightarrow>
     readConfigFile env (module_loaded env fs) = Ok Module
     \<and> load_config env (module_loaded env fs) = Ok (DEFAULT_CONFIG env)"
  by (simp add: load_config_def readConfigFile_def config_value_module_loaded)

lemma load_merges:
  "files st (configPath env) = Some text \<Longrightarrow> JSON_parse env text = Some loaded \<Longrightarrow>
     load_config env st = Ok (spread (config_value st Module) loaded)
     \<and> (\<forall>key. map_of (spread (config_value st Module) loaded) key =
           (case map_of (rev (own_enumerable loaded)) key of
              Some v \<Rightarrow> Some v
            | None \<Rightarrow> map_of (config_value st Module) key))"
  by (simp add: load_config_file) (simp add: spread_def map_of_assign_all)

lemma first_load_model_x:
  "fs (configPath env) = Some text \<Longrightarrow> JSON_parse env text = Some (JObj [(''model'', JStr ''x'')]) \<Longrightarrow>
     load_config env (module_loaded env fs) =
       Ok [(''provider'', JStr ''openai''),
           (''OPENAI_API_KEY'', JStr []),
           (''model'', JStr ''x''),
           (''ollama_endpoint'', JStr ''http://localhost:11434''),
           (''ollama_model'', JStr ''gemma3:4b''),
           (''templates'',
            JObj [(''default'', JStr (path_join env (homedir env) ''.bunnai-template''))])]"
proof -
  assume a: "fs (configPath env) = Some text"
    and b: "JSON_parse env text = Some (JObj [(''model'', JStr ''x'')])"
  from a have "files (module_loaded env fs) (configPath env) = Some text"
    by simp
  from load_config_file [OF this b] show ?thesis
    by (simp add: config_value_module_loaded spread_def assign_all_def DEFAULT_CONFIG_def)
qed

text \<open>
  C4. The claim: with no configuration file \<open>readConfigFile\<close> returns exactly the
  hard-coded defaults, and with a file that decodes to \<open>{"model":"x"}\<close> the defaults
  with \<open>model\<close> alone overridden. That is so for the first load of a process. But
  line 93 returns the module object itself, and the merge of lines 99 to 102 keeps its
  \<open>templates\<close> object, while \<open>cleanUpTemplates\<close> deletes in place. With no
  configuration file and no template file, after the
  \<open>cleanUpTemplates(await readConfigFile())\<close> of \<open>showConfigUI\<close> (line 143) the next
  load of the same process returns \<open>templates: {}\<close>; when the user then sets the
  API key, \<open>setConfigs\<close> (line 129) loads that and writes it to the file. With the
  file \<open>{"model":"x"}\<close> the load after the pruning has lost \<open>templates.default\<close>
  in the same way.
\<close>

theorem readConfigFile_after_prune:
  \<open>no_files (configPath example_env) = None
   \<and> load_config example_env (module_loaded example_env no_files) = Ok (DEFAULT_CONFIG example_env)
   \<and> fst (cleanUpTemplates (module_loaded example_env no_files) Module) = Ok Module
   \<and> files (snd (cleanUpTemplates (module_loaded example_env no_files) Module)) (configPath example_env)
       = None
   \<and> load_config example_env (snd (cleanUpTemplates (module_loaded example_env no_files) Module))
       = Ok [(''provider'', JStr ''openai''),
             (''OPENAI_API_KEY'', JStr []),
             (''model'', JStr ''gpt-4-0125-preview''),
             (''ollama_endpoint'', JStr ''http://localhost:11434''),
             (''ollama_model'', JStr ''gemma3:4b''),
             (''templates'', JObj [])]
   \<and> load_config example_env (snd (cleanUpTemplates (module_loaded example_env no_files) Module))
       \<noteq> Ok (DEFAULT_CONFIG example_env)
   \<and> files (snd (showConfigUI example_env (module_loaded example_env no_files) api_key_menu))
         ''/home/u/.bunnai''
       = Some ''{"provider":"openai","OPENAI_API_KEY":"sk-1","model":"gpt-4-0125-preview","ollama_endpoint":"http://localhost:11434","ollama_model":"gemma3:4b","templates":{}}''
   \<and> readConfigFile example_env (module_loaded example_env model_x_files)
       = Ok (Fresh [(''provider'', Plain (JStr ''openai'')),
                    (''OPENAI_API_KEY'', Plain (JStr [])),
                    (''model'', Plain (JStr ''x'')),
                    (''ollama_endpoint'', Plain (JStr ''http://localhost:11434'')),
                    (''ollama_model'', Plain (JStr ''gemma3:4b'')),
                    (''templates'', Shared templates_addr)])
   \<and> load_config example_env
         (snd (cleanUpTemplates (module_loaded example_env model_x_files)
            (Fresh [(''provider'', Plain (JStr ''openai'')),
                    (''OPENAI_API_KEY'', Plain (JStr [])),
                    (''model'', Plain (JStr ''x'')),
                    (''ollama_endpoint'', Plain (JStr ''http://localhost:11434'')),
                    (''ollama_model'', Plain (JStr ''gemma3:4b'')),
                    (''templates'', Shared templates_addr)])))
       = Ok [(''provider'', JStr ''openai''),
             (''OPENAI_API_KEY'', JStr []),
             (''model'', JStr ''x''),
             (''ollama_endpoint'', JStr ''http://localhost:11434''),
             (''ollama_model'', JStr ''gemma3:4b''),
             (''templates'', JObj [])]\<close>
  by (simp add: load_config_def readConfigFile_def cleanUpTemplates_def showConfigUI_def
      api_key_menu_def setConfigs_def set_field_def config_value_def fields_of_def fields_value_def
      cval_value_def module_loaded_def templates_addr_def assign_fields_def plain_entries_def DEFAULT_CONFIG_def
      no_files_def model_x_files_def configPath_def example_env_def example_parse_def
      io_catch_def halt_def)

section \<open>Writing fields\<close>

lemma recognized_fields:
  "set (map fst (DEFAULT_CONFIG env)) =
     {''provider'', ''OPENAI_API_KEY'', ''model'', ''ollama_endpoint'', ''ollama_model'', ''templates''}"
  by (auto simp: DEFAULT_CONFIG_def)

lemma validateKeys_find:
  "validateKeys st keys =
     (case find (\<lambda>key. key \<notin> set (map fst (module_config st))) keys of
        None \<Rightarrow> Ok ()
      | Some bad \<Rightarrow> Throw (Error (''Invalid config property: '' @ bad)))"
  by (induction keys) simp_all

text \<open>
  The fields of the module object stay the ones of the literal: \<open>setConfigs\<close>
  assigns to fields that are there, and \<open>cleanUpTemplates\<close> deletes inside the
  \<open>templates\<close> object only.
\<close>

lemma setConfigs_keeps_fields:
  "\<forall>key \<in> set (map fst keyValues). key \<in> set (map fst (module_config st)) \<Longrightarrow>
     map fst (module_config (snd (setConfigs env st keyValues))) = map fst (module_config st)"
  by (cases "readConfigFile env st"; cases "validateKeys st (map fst keyValues)")
    (auto simp: setConfigs_def Let_def assign_entries_store keys_assign_fields
      split: config_ref.splits)

lemma set_field_keeps_fields:
  "map_of (fields_of st config) key \<noteq> None \<Longrightarrow>
     map fst (module_config (snd (set_field st config key c))) = map fst (module_config st)"
proof (cases config)
  case Module
  assume "map_of (fields_of st config) key \<noteq> None"
  then have "key \<in> set (map fst (module_config st))"
    by (simp add: Module fields_of_def map_of_eq_None_iff)
  then show ?thesis
    by (simp add: Module set_field_def keys_update_present)
next
  case (Fresh props)
  then show ?thesis by (simp add: set_field_def)
qed

lemma cleanUpTemplates_keeps_fields:
  "map fst (module_config (snd (cleanUpTemplates st config))) = map fst (module_config st)"
proof (cases "map_of (fields_of st config) ''templates''")
  case None
  then show ?thesis by (simp add: cleanUpTemplates_def)
next
  case (Some c)
  then have present: "map_of (fields_of st config) ''templates'' \<noteq> None" by simp
  show ?thesis
  proof (cases c)
    case (Plain v)
    show ?thesis
      using set_field_keeps_fields [OF present]
      by (cases v) (simp_all add: cleanUpTemplates_def Some Plain split: result.splits)
  next
    case (Shared a)
    then show ?thesis
      by (simp add: cleanUpTemplates_def Some split: result.splits)
  qed
qed

text \<open>
  C3, as the code has it. \<open>setConfigs\<close> loads the configuration first. When the load
  succeeds, the keys are checked before anything is assigned: the first key that is not
  a field of the defaults makes the call fail with
  \<open>Error("Invalid config property: " + key)\<close>, and the store, the file system with
  it, is left as it was; when every key is a field of the defaults, the entries are
  assigned in order (for a key given twice the later value stands; a value is a tree or
  a reference to a shared object, which is written as it reads then) and the whole object
  is written to the configuration path in one write, which is the only change to the
  file system. When the load itself fails, the call fails with the error of the load,
  whatever the keys are, and the store is left as it was. The fields of the defaults
  are those of \<open>Object.keys(DEFAULT_CONFIG)\<close>, the six of the literal.
\<close>

theorem setConfigs_after_load:
  "(readConfigFile env st = Ok config
      \<and> find (\<lambda>key. key \<notin> set (map fst (module_config st))) (map fst keyValues) = Some bad \<longrightarrow>
        setConfigs env st keyValues = (Throw (Error (''Invalid config property: '' @ bad)), st))
   \<and> (readConfigFile env st = Ok config
      \<and> (\<forall>key \<in> set (map fst keyValues). key \<in> set (map fst (module_config st))) \<longrightarrow>
        fst (setConfigs env st keyValues) = Ok ()
        \<and> files (snd (setConfigs env st keyValues)) =
            (files st)(configPath env \<mapsto>
               JSON_stringify env
                 (JObj (assign_all (config_value st config) (fields_value (shared st) keyValues))))
        \<and> shared (snd (setConfigs env st keyValues)) = shared st
        \<and> module_config (snd (setConfigs env st keyValues)) =
            (case config of
               Module \<Rightarrow> assign_fields (module_config st) keyValues
             | Fresh props \<Rightarrow> module_config st)
        \<and> (\<forall>key. map_of (assign_all (config_value st config) (fields_value (shared st) keyValues)) key =
              (case map_of (rev (fields_value (shared st) keyValues)) key of
                 Some v \<Rightarrow> Some v
               | None \<Rightarrow> map_of (config_value st config) key)))
   \<and> (readConfigFile env st = Throw e \<longrightarrow> setConfigs env st keyValues = (Throw e, st))
   \<and> set (map fst (module_config (module_loaded env fs))) =
       {''provider'', ''OPENAI_API_KEY'', ''model'', ''ollama_endpoint'', ''ollama_model'', ''templates''}"
proof (intro conjI impI)
  assume "readConfigFile env st = Ok config
      \<and> find (\<lambda>key. key \<notin> set (map fst (module_config st))) (map fst keyValues) = Some bad"
  then show "setConfigs env st keyValues = (Throw (Error (''Invalid config property: '' @ bad)), st)"
    by (simp add: setConfigs_def validateKeys_find)
next
  assume a: "readConfigFile env st = Ok config
      \<and> (\<forall>key \<in> set (map fst keyValues). key \<in> set (map fst (module_config st)))"
  then have "find (\<lambda>key. key \<notin> set (map fst (module_config st))) (map fst keyValues) = None"
    by (simp add: find_None_iff)
  then have v: "validateKeys st (map fst keyValues) = Ok ()"
    by (simp add: validateKeys_find)
  from a v show "fst (setConfigs env st keyValues) = Ok ()"
    by (simp add: setConfigs_def Let_def)
  from a v show "files (snd (setConfigs env st keyValues)) =
            (files st)(configPath env \<mapsto>
               JSON_stringify env
                 (JObj (assign_all (config_value st config) (fields_value (shared st) keyValues))))"
    by (simp add: setConfigs_def Let_def assign_entries_value)
  from a v show "shared (snd (setConfigs env st keyValues)) = shared st"
    by (simp add: setConfigs_def Let_def assign_entries_store)
  from a v show "module_config (snd (setConfigs env st keyValues)) =
            (case config of
               Module \<Rightarrow> assign_fields (module_config st) keyValues
             | Fresh props \<Rightarrow> module_config st)"
    by (simp add: setConfigs_def Let_def assign_entries_store)
next
  show "\<forall>key. map_of (assign_all (config_value st config) (fields_value (shared st) keyValues)) key =
              (case map_of (rev (fields_value (shared st) keyValues)) key of
                 Some v \<Rightarrow> Some v
               | None \<Rightarrow> map_of (config_value st config) key)"
    by (simp add: map_of_assign_all)
next
  assume "readConfigFile env st = Throw e"
  then show "setConfigs env st keyValues = (Throw e, st)"
    by (simp add: setConfigs_def)
next
  show "set (map fst (module_config (module_loaded env fs))) =
       {''provider'', ''OPENAI_API_KEY'', ''model'', ''ollama_endpoint'', ''ollama_model'', ''templates''}"
    unfolding keys_module_loaded by (rule recognized_fields)
qed

text \<open>
  The claim C3 as stated promises the invalid-field error for every call with an
  unrecognised key. With a configuration file that is not JSON the call fails with the
  decoder's error before the keys are looked at.
\<close>

theorem setConfigs_corrupt_file_counterexample:
  "''bogus'' \<notin> set (map fst (module_config (module_loaded example_env corrupt_files)))
   \<and> fst (setConfigs example_env (module_loaded example_env corrupt_files) [(''bogus'', Plain (JStr ''v''))])
       = Throw SyntaxError
   \<and> fst (setConfigs example_env (module_loaded example_env corrupt_files) [(''bogus'', Plain (JStr ''v''))])
       \<noteq> Throw (Error ''Invalid config property: bogus'')
   \<and> fst (setConfigs example_env (module_loaded example_env corrupt_files) [(''model'', Plain (JStr ''v''))])
       = Throw SyntaxError"
  by (simp add: setConfigs_def readConfigFile_def corrupt_files_def configPath_def example_env_def
      example_parse_def module_loaded_def)

theorem setConfigs_after_load_witness:
  \<open>readConfigFile example_env (module_loaded example_env no_files) = Ok Module
   \<and> setConfigs example_env (module_loaded example_env no_files)
         [(''model'', Plain (JStr ''m'')), (''bogus'', Plain (JStr ''v''))]
       = (Throw (Error ''Invalid config property: bogus''), module_loaded example_env no_files)
   \<and> fst (setConfigs example_env (module_loaded example_env no_files)
         [(''model'', Plain (JStr ''m''))]) = Ok ()
   \<and> files (snd (setConfigs example_env (module_loaded example_env no_files)
         [(''model'', Plain (JStr ''m''))]))
       = no_files(''/home/u/.bunnai'' \<mapsto>
           ''{"provider":"openai","OPENAI_API_KEY":"","model":"m","ollama_endpoint":"http://localhost:11434","ollama_model":"gemma3:4b","templates":{"default":"/home/u/.bunnai-template"}}'')
   \<and> map_of (assign_all (DEFAULT_CONFIG example_env) [(''model'', JStr ''m'')]) ''model'' = Some (JStr ''m'')
   \<and> readConfigFile example_env (module_loaded example_env corrupt_files) = Throw SyntaxError
   \<and> setConfigs example_env (module_loaded example_env corrupt_files)
         [(''model'', Plain (JStr ''m''))]
       = (Throw SyntaxError, module_loaded example_env corrupt_files)\<close>
  using setConfigs_after_load [of example_env "module_loaded example_env no_files" Module
      "[(''model'', Plain (JStr ''m'')), (''bogus'', Plain (JStr ''v''))]" "''bogus''"]
    setConfigs_after_load [of example_env "module_loaded example_env no_files" Module
      "[(''model'', Plain (JStr ''m''))]"]
    setConfigs_after_load [of example_env "module_loaded example_env corrupt_files" _
      "[(''model'', Plain (JStr ''m''))]" _ SyntaxError]
  by (simp add: readConfigFile_def no_files_def corrupt_files_def configPath_def example_env_def
      example_parse_def config_value_module_loaded DEFAULT_CONFIG_def assign_all_def
      fields_value_def cval_value_def)

section \<open>The default template\<close>


lemma field_update_same: "field (AList.update key v obj) key = v"
  by (simp add: field_def update_conv')










section \<open>The local catalogue\<close>

lemma get_prop_modelled: "get_prop v key \<noteq> Unmodelled"
  by (cases v) simp_all

lemma map_entries_modelled:
  "(\<And>x. f x \<noteq> Unmodelled) \<Longrightarrow> map_entries f xs \<noteq> Unmodelled"
proof (induction xs)
  case Nil
  then show ?case by simp
next
  case (Cons x xs)
  then show ?case
    by (cases "f x"; cases "map_entries f xs") simp_all
qed

lemma entry_name_modelled: "entry_name alt m \<noteq> Unmodelled"
  using get_prop_modelled [of m "''name''"] get_prop_modelled [of m alt]
  by (cases "get_prop m ''name''"; cases "get_prop m alt") (simp_all add: entry_name_def)

lemma normalize_tags_cases:
  "(\<exists>models. normalize_tags data = Ok models \<and> (\<forall>m \<in> set models. truthy m))
   \<or> (\<exists>e. normalize_tags data = Throw e)"
proof -
  have names: "\<And>alt xs. (\<exists>ns. map_entries (entry_name alt) xs = Ok ns)
      \<or> (\<exists>e. map_entries (entry_name alt) xs = Throw e)"
    subgoal for alt xs
      using map_entries_modelled [of "entry_name alt" xs, OF entry_name_modelled]
      by (cases "map_entries (entry_name alt) xs") simp_all
    done
  show ?thesis
  proof (cases "get_prop data ''models''")
    case (Ok models)
    show ?thesis
    proof (cases "\<exists>ms. models = JArr ms")
      case True
      then obtain ms where ms: "models = JArr ms" by blast
      from names [of "''model''" ms] show ?thesis
        by (auto simp: normalize_tags_def Ok ms)
    next
      case False
      then have nt: "normalize_tags data =
          rbind (get_prop data ''tags'')
            (\<lambda>tags. case tags of
               JArr ts \<Rightarrow> rbind (map_entries (entry_name ''tag'') ts) (\<lambda>names. Ok (filter truthy names))
             | _ \<Rightarrow> Ok [])"
        by (cases models) (simp_all add: normalize_tags_def Ok)
      show ?thesis
      proof (cases "get_prop data ''tags''")
        case (Ok tags)
        show ?thesis
        proof (cases "\<exists>ts. tags = JArr ts")
          case True
          then obtain ts where ts: "tags = JArr ts" by blast
          from names [of "''tag''" ts] show ?thesis
            by (auto simp: nt \<open>get_prop data ''tags'' = Ok tags\<close> ts)
        next
          case False
          then show ?thesis
            by (cases tags) (simp_all add: nt \<open>get_prop data ''tags'' = Ok tags\<close>)
        qed
      next
        case (Throw e)
        then show ?thesis by (simp add: nt)
      next
        case Unmodelled
        then show ?thesis by (simp add: get_prop_modelled)
      qed
    qed
  next
    case (Throw e)
    then show ?thesis by (simp add: normalize_tags_def)
  next
    case Unmodelled
    then show ?thesis by (simp add: get_prop_modelled)
  qed
qed

lemma normalize_tags_neither:
  "(\<forall>ms. get_prop data ''models'' \<noteq> Ok (JArr ms)) \<Longrightarrow> (\<forall>ts. get_prop data ''tags'' \<noteq> Ok (JArr ts))
   \<Longrightarrow> normalize_tags data = Ok [] \<or> (\<exists>e. normalize_tags data = Throw e)"
proof -
  assume m: "\<forall>ms. get_prop data ''models'' \<noteq> Ok (JArr ms)"
    and t: "\<forall>ts. get_prop data ''tags'' \<noteq> Ok (JArr ts)"
  show ?thesis
  proof (cases "get_prop data ''models''")
    case (Ok models)
    with m have "\<forall>ms. models \<noteq> JArr ms" by simp
    then have nt: "normalize_tags data =
          rbind (get_prop data ''tags'')
            (\<lambda>tags. case tags of
               JArr ts \<Rightarrow> rbind (map_entries (entry_name ''tag'') ts) (\<lambda>names. Ok (filter truthy names))
             | _ \<Rightarrow> Ok [])"
      by (cases models) (simp_all add: normalize_tags_def Ok)
    show ?thesis
    proof (cases "get_prop data ''tags''")
      case (Ok tags)
      with t have "\<forall>ts. tags \<noteq> JArr ts" by simp
      then show ?thesis
        by (cases tags) (simp_all add: nt Ok)
    next
      case (Throw e)
      then show ?thesis by (simp add: nt)
    next
      case Unmodelled
      then show ?thesis by (simp add: get_prop_modelled)
    qed
  next
    case (Throw e)
    then show ?thesis by (simp add: normalize_tags_def)
  next
    case Unmodelled
    then show ?thesis by (simp add: get_prop_modelled)
  qed
qed

lemma getOllamaModels_string:
  "getOllamaModels env (JStr endpoint) =
     (case fetch env (tags_url endpoint) of
        Rejects e \<Rightarrow>
          ([Fetch (tags_url endpoint), ConsoleError [S ''Error fetching Ollama models:'', E e]], Next [])
      | Resolves r \<Rightarrow>
          if \<not> ok r then
            ([Fetch (tags_url endpoint),
              ConsoleError [S ''Error fetching Ollama models:'',
                            E (Error ''Failed to fetch models from Ollama endpoint'')]], Next [])
          else (case json r of
                  None \<Rightarrow>
                    ([Fetch (tags_url endpoint),
                      ConsoleError [S ''Error fetching Ollama models:'', E SyntaxError]], Next [])
                | Some data \<Rightarrow>
                    (case normalize_tags data of
                       Ok models \<Rightarrow> ([Fetch (tags_url endpoint)], Next models)
                     | Throw e \<Rightarrow>
                         ([Fetch (tags_url endpoint),
                           ConsoleError [S ''Error fetching Ollama models:'', E e]], Next [])
                     | Unmodelled \<Rightarrow> ([Fetch (tags_url endpoint)], Halt NotModelled))))"
  by (simp add: getOllamaModels_def getOllamaModels_try_def emit_def halt_def console_error_def
      io_return_def split: answer.splits option.splits result.splits)

lemma getOllamaModels_other:
  "(\<forall>s. endpoint \<noteq> JStr s) \<Longrightarrow>
     getOllamaModels env endpoint =
       ([ConsoleError [S ''Error fetching Ollama models:'', E TypeError]], Next [])"
  by (cases endpoint)
    (simp_all add: getOllamaModels_def getOllamaModels_try_def emit_def halt_def console_error_def
      io_return_def)


text \<open>
  C6, as the code has it. \<open>getOllamaModels\<close> on the tag listing. A body that
  decodes to \<open>{"models":[{"name":"a"},{"model":"b"}]}\<close> gives \<open>["a","b"]\<close>, and
  \<open>{"tags":[{"tag":"c"}]}\<close> gives \<open>["c"]\<close>. For every endpoint value and every
  behaviour of the network the call returns a list and does not throw, and every entry
  of the list is truthy, so no entry is the empty string. The list is empty when the
  request fails, when the status is not a success, when the body is not JSON, when
  neither \<open>models\<close> nor \<open>tags\<close> is an array, and when reading the payload throws
  (a payload or an entry that is \<open>null\<close>). When \<open>models\<close> is an array, or it is
  not and \<open>tags\<close> is, and every entry can be read, the list is the names that are
  truthy, each as it was read, whatever its type.
\<close>

theorem getOllamaModels_normalizes:
  "(fetch env (tags_url endpoint) = Resolves r \<and> ok r
      \<and> json r = Some (JObj [(''models'', JArr [JObj [(''name'', JStr ''a'')], JObj [(''model'', JStr ''b'')]])]) \<longrightarrow>
        snd (getOllamaModels env (JStr endpoint)) = Next [JStr ''a'', JStr ''b''])
   \<and> (fetch env (tags_url endpoint) = Resolves r \<and> ok r
      \<and> json r = Some (JObj [(''tags'', JArr [JObj [(''tag'', JStr ''c'')]])]) \<longrightarrow>
        snd (getOllamaModels env (JStr endpoint)) = Next [JStr ''c''])
   \<and> (\<exists>models. snd (getOllamaModels env any_endpoint) = Next models
          \<and> (\<forall>m \<in> set models. truthy m) \<and> JStr [] \<notin> set models)
   \<and> (fetch env (tags_url endpoint) = Rejects e \<longrightarrow>
        snd (getOllamaModels env (JStr endpoint)) = Next [])
   \<and> (fetch env (tags_url endpoint) = Resolves r \<and> \<not> ok r \<longrightarrow>
        snd (getOllamaModels env (JStr endpoint)) = Next [])
   \<and> (fetch env (tags_url endpoint) = Resolves r \<and> ok r \<and> json r = None \<longrightarrow>
        snd (getOllamaModels env (JStr endpoint)) = Next [])
   \<and> (fetch env (tags_url endpoint) = Resolves r \<and> ok r \<and> json r = Some data
      \<and> (\<forall>ms. get_prop data ''models'' \<noteq> Ok (JArr ms))
      \<and> (\<forall>ts. get_prop data ''tags'' \<noteq> Ok (JArr ts)) \<longrightarrow>
        snd (getOllamaModels env (JStr endpoint)) = Next [])
   \<and> (fetch env (tags_url endpoint) = Resolves r \<and> ok r \<and> json r = Some data
      \<and> normalize_tags data = Throw e \<longrightarrow>
        snd (getOllamaModels env (JStr endpoint)) = Next [])
   \<and> (fetch env (tags_url endpoint) = Resolves r \<and> ok r \<and> json r = Some data
      \<and> get_prop data ''models'' = Ok (JArr ms)
      \<and> map_entries (entry_name ''model'') ms = Ok names \<longrightarrow>
        snd (getOllamaModels env (JStr endpoint)) = Next (filter truthy names))
   \<and> (fetch env (tags_url endpoint) = Resolves r \<and> ok r \<and> json r = Some data
      \<and> (\<forall>ms. get_prop data ''models'' \<noteq> Ok (JArr ms))
      \<and> get_prop data ''tags'' = Ok (JArr ts)
      \<and> map_entries (entry_name ''tag'') ts = Ok names \<longrightarrow>
        snd (getOllamaModels env (JStr endpoint)) = Next (filter truthy names))"
proof (intro conjI impI)
  assume "fetch env (tags_url endpoint) = Resolves r \<and> ok r
      \<and> json r = Some (JObj [(''models'', JArr [JObj [(''name'', JStr ''a'')], JObj [(''model'', JStr ''b'')]])])"
  then show "snd (getOllamaModels env (JStr endpoint)) = Next [JStr ''a'', JStr ''b'']"
    by (simp add: getOllamaModels_string normalize_tags_def entry_name_def js_or_def)
next
  assume "fetch env (tags_url endpoint) = Resolves r \<and> ok r
      \<and> json r = Some (JObj [(''tags'', JArr [JObj [(''tag'', JStr ''c'')]])])"
  then show "snd (getOllamaModels env (JStr endpoint)) = Next [JStr ''c'']"
    by (simp add: getOllamaModels_string normalize_tags_def entry_name_def js_or_def)
next
  have "\<exists>models. snd (getOllamaModels env any_endpoint) = Next models \<and> (\<forall>m \<in> set models. truthy m)"
  proof (cases "\<exists>s. any_endpoint = JStr s")
    case True
    then obtain s where s: "any_endpoint = JStr s" by blast
    show ?thesis
    proof (cases "fetch env (tags_url s)")
      case (Resolves r)
      show ?thesis
      proof (cases "ok r")
        case True
        show ?thesis
        proof (cases "json r")
          case None
          with Resolves True show ?thesis
            by (simp add: s getOllamaModels_string)
        next
          case (Some data)
          from normalize_tags_cases [of data] Resolves True Some show ?thesis
            by (auto simp: s getOllamaModels_string)
        qed
      next
        case False
        with Resolves show ?thesis
          by (simp add: s getOllamaModels_string)
      qed
    next
      case (Rejects e)
      then show ?thesis
        by (simp add: s getOllamaModels_string)
    qed
  next
    case False
    then show ?thesis
      by (simp add: getOllamaModels_other)
  qed
  then obtain models where m: "snd (getOllamaModels env any_endpoint) = Next models"
    "\<forall>m \<in> set models. truthy m"
    by blast
  then have "JStr [] \<notin> set models" by auto
  with m show "\<exists>models. snd (getOllamaModels env any_endpoint) = Next models
          \<and> (\<forall>m \<in> set models. truthy m) \<and> JStr [] \<notin> set models"
    by blast
next
  assume "fetch env (tags_url endpoint) = Rejects e"
  then show "snd (getOllamaModels env (JStr endpoint)) = Next []"
    by (simp add: getOllamaModels_string)
next
  assume "fetch env (tags_url endpoint) = Resolves r \<and> \<not> ok r"
  then show "snd (getOllamaModels env (JStr endpoint)) = Next []"
    by (simp add: getOllamaModels_string)
next
  assume "fetch env (tags_url endpoint) = Resolves r \<and> ok r \<and> json r = None"
  then show "snd (getOllamaModels env (JStr endpoint)) = Next []"
    by (simp add: getOllamaModels_string)
next
  assume a: "fetch env (tags_url endpoint) = Resolves r \<and> ok r \<and> json r = Some data
      \<and> (\<forall>ms. get_prop data ''models'' \<noteq> Ok (JArr ms))
      \<and> (\<forall>ts. get_prop data ''tags'' \<noteq> Ok (JArr ts))"
  then have "normalize_tags data = Ok [] \<or> (\<exists>e. normalize_tags data = Throw e)"
    by (simp add: normalize_tags_neither)
  with a show "snd (getOllamaModels env (JStr endpoint)) = Next []"
    by (auto simp: getOllamaModels_string)
next
  assume "fetch env (tags_url endpoint) = Resolves r \<and> ok r \<and> json r = Some data
      \<and> normalize_tags data = Throw e"
  then show "snd (getOllamaModels env (JStr endpoint)) = Next []"
    by (simp add: getOllamaModels_string)
next
  assume "fetch env (tags_url endpoint) = Resolves r \<and> ok r \<and> json r = Some data
      \<and> get_prop data ''models'' = Ok (JArr ms)
      \<and> map_entries (entry_name ''model'') ms = Ok names"
  then show "snd (getOllamaModels env (JStr endpoint)) = Next (filter truthy names)"
    by (simp add: getOllamaModels_string normalize_tags_def)
next
  assume a: "fetch env (tags_url endpoint) = Resolves r \<and> ok r \<and> json r = Some data
      \<and> (\<forall>ms. get_prop data ''models'' \<noteq> Ok (JArr ms))
      \<and> get_prop data ''tags'' = Ok (JArr ts)
      \<and> map_entries (entry_name ''tag'') ts = Ok names"
  then obtain models where m: "get_prop data ''models'' = Ok models"
    using get_prop_modelled [of data "''models''"]
    by (cases data) auto
  with a have "\<forall>ms. models \<noteq> JArr ms" by simp
  then have "normalize_tags data = Ok (filter truthy names)"
    using a by (cases models) (simp_all add: normalize_tags_def m)
  with a show "snd (getOllamaModels env (JStr endpoint)) = Next (filter truthy names)"
    by (simp add: getOllamaModels_string)
qed

text \<open>
  The claim C6 as stated has every unexpected payload shape give the empty list. A
  body that decodes to \<open>{"models":[{"name":true}]}\<close> is not of the expected shape,
  no name being a string, and the call returns \<open>[true]\<close> with nothing logged.
\<close>

theorem getOllamaModels_unexpected_shape_counterexample:
  "getOllamaModels
      (fetch_env (Resolves \<lparr>ok = True, json = Some (JObj [(''models'', JArr [JObj [(''name'', JBool True)]])])\<rparr>))
      (JStr ''http://localhost:11434'')
     = ([Fetch ''http://localhost:11434/api/tags''], Next [JBool True])
   \<and> Next [JBool True] \<noteq> (Next [] :: jsval list step)"
  by (simp add: fetch_env_def example_env_def getOllamaModels_string
      tags_url_def strip_trailing_slash_def normalize_tags_def entry_name_def js_or_def)

theorem getOllamaModels_normalizes_witness:
  "getOllamaModels (fetch_env (Resolves \<lparr>ok = True, json = Some models_body\<rparr>)) (JStr ''http://localhost:11434/'')
     = ([Fetch ''http://localhost:11434/api/tags''], Next [JStr ''a'', JStr ''b''])
   \<and> snd (getOllamaModels (fetch_env (Resolves \<lparr>ok = True, json = Some tags_body\<rparr>)) (JStr ''http://localhost:11434''))
     = Next [JStr ''c'']
   \<and> snd (getOllamaModels
        (fetch_env (Resolves \<lparr>ok = True, json = Some (JObj [(''models'', JArr [JObj [(''name'', JStr [])], JObj [(''name'', JStr ''a'')]])])\<rparr>))
        (JStr ''http://localhost:11434'')) = Next [JStr ''a'']
   \<and> snd (getOllamaModels (fetch_env (Rejects (External ''connection refused''))) (JStr ''http://localhost:11434''))
     = Next []
   \<and> snd (getOllamaModels (fetch_env (Resolves \<lparr>ok = False, json = Some models_body\<rparr>)) (JStr ''http://localhost:11434''))
     = Next []
   \<and> snd (getOllamaModels (fetch_env (Resolves \<lparr>ok = True, json = None\<rparr>)) (JStr ''http://localhost:11434''))
     = Next []
   \<and> snd (getOllamaModels (fetch_env (Resolves \<lparr>ok = True, json = Some (JObj [(''models'', JStr ''none'')])\<rparr>)) (JStr ''http://localhost:11434''))
     = Next []
   \<and> normalize_tags JNull = Throw TypeError
   \<and> snd (getOllamaModels (fetch_env (Resolves \<lparr>ok = True, json = Some JNull\<rparr>)) (JStr ''http://localhost:11434''))
     = Next []
   \<and> map_entries (entry_name ''model'') [JObj [(''name'', JNum 7)], JObj [(''model'', JNum 0)]]
     = Ok [JNum 7, JStr []]
   \<and> snd (getOllamaModels
        (fetch_env (Resolves \<lparr>ok = True, json = Some (JObj [(''models'', JArr [JObj [(''name'', JNum 7)], JObj [(''model'', JNum 0)]])])\<rparr>))
        (JStr ''http://localhost:11434'')) = Next [JNum 7]
   \<and> snd (getOllamaModels
        (fetch_env (Resolves \<lparr>ok = True, json = Some (JObj [(''tags'', JArr [JObj [(''name'', JStr ''d'')], JNum 3])])\<rparr>))
        (JStr ''http://localhost:11434'')) = Next [JStr ''d'']"
  using
    getOllamaModels_normalizes [of "fetch_env (Resolves \<lparr>ok = True, json = Some models_body\<rparr>)"
      "''http://localhost:11434/''" "\<lparr>ok = True, json = Some models_body\<rparr>"]
    getOllamaModels_normalizes [of "fetch_env (Resolves \<lparr>ok = True, json = Some tags_body\<rparr>)"
      "''http://localhost:11434''" "\<lparr>ok = True, json = Some tags_body\<rparr>"]
    getOllamaModels_normalizes [of "fetch_env (Rejects (External ''connection refused''))"
      "''http://localhost:11434''" _ _ "External ''connection refused''"]
    getOllamaModels_normalizes [of "fetch_env (Resolves \<lparr>ok = False, json = Some models_body\<rparr>)"
      "''http://localhost:11434''" "\<lparr>ok = False, json = Some models_body\<rparr>"]
    getOllamaModels_normalizes [of "fetch_env (Resolves \<lparr>ok = True, json = None\<rparr>)"
      "''http://localhost:11434''" "\<lparr>ok = True, json = None\<rparr>"]
    getOllamaModels_normalizes [of
      "fetch_env (Resolves \<lparr>ok = True, json = Some (JObj [(''models'', JStr ''none'')])\<rparr>)"
      "''http://localhost:11434''" "\<lparr>ok = True, json = Some (JObj [(''models'', JStr ''none'')])\<rparr>"
      _ _ "JObj [(''models'', JStr ''none'')]"]
    getOllamaModels_normalizes [of "fetch_env (Resolves \<lparr>ok = True, json = Some JNull\<rparr>)"
      "''http://localhost:11434''" "\<lparr>ok = True, json = Some JNull\<rparr>" _ TypeError JNull]
    getOllamaModels_normalizes [of
      "fetch_env (Resolves \<lparr>ok = True, json = Some (JObj [(''models'', JArr [JObj [(''name'', JNum 7)], JObj [(''model'', JNum 0)]])])\<rparr>)"
      "''http://localhost:11434''"
      "\<lparr>ok = True, json = Some (JObj [(''models'', JArr [JObj [(''name'', JNum 7)], JObj [(''model'', JNum 0)]])])\<rparr>"
      _ _ "JObj [(''models'', JArr [JObj [(''name'', JNum 7)], JObj [(''model'', JNum 0)]])]"
      "[JObj [(''name'', JNum 7)], JObj [(''model'', JNum 0)]]" "[JNum 7, JStr []]"]
    getOllamaModels_normalizes [of
      "fetch_env (Resolves \<lparr>ok = True, json = Some (JObj [(''tags'', JArr [JObj [(''name'', JStr ''d'')], JNum 3])])\<rparr>)"
      "''http://localhost:11434''"
      "\<lparr>ok = True, json = Some (JObj [(''tags'', JArr [JObj [(''name'', JStr ''d'')], JNum 3])])\<rparr>"
      _ _ "JObj [(''tags'', JArr [JObj [(''name'', JStr ''d'')], JNum 3])]"
      _ "[JStr ''d'', JStr []]" "[JObj [(''name'', JStr ''d'')], JNum 3]"]
  by (simp add: fetch_env_def example_env_def models_body_def tags_body_def getOllamaModels_string
      tags_url_def strip_trailing_slash_def normalize_tags_def entry_name_def js_or_def)

section \<open>The stages of a run\<close>

lemma fst_io_bind:
  "fst (io_bind m f) = fst m @ (case snd m of Next a \<Rightarrow> fst (f a) | Halt out \<Rightarrow> [])"
  by (simp add: io_bind_def split: step.splits)

lemma snd_io_bind:
  "snd (io_bind m f) = (case snd m of Next a \<Rightarrow> snd (f a) | Halt out \<Rightarrow> Halt out)"
  by (simp add: io_bind_def split: step.splits)

lemma debug_console: "e \<in> set (fst (debug options ps)) \<Longrightarrow> is_console e"
  by (auto simp: debug_def emit_def io_return_def split: if_splits)

lemma snd_debug [simp]: "snd (debug options ps) = Next ()"
  by (simp add: debug_def emit_def io_return_def)

lemma template_path_console:
  "e \<in> set (fst (template_path options config templateName)) \<Longrightarrow> is_console e"
  by (auto simp: template_path_def default_template_path_def named_template_path_def
      fst_io_bind console_error_def emit_def halt_def io_return_def lift_result_def
      dest: debug_console split: option.splits if_splits result.splits step.splits)

lemma read_template_console:
  "e \<in> set (fst (read_template fs options templateFilePath)) \<Longrightarrow> is_console e"
  by (auto simp: read_template_def fst_io_bind console_error_def emit_def halt_def io_return_def
      dest: debug_console split: jsval.splits option.splits if_splits step.splits)

lemma working_directory_console:
  "e \<in> set (fst (working_directory env options)) \<Longrightarrow> is_console e"
  by (auto simp: working_directory_def fst_io_bind io_return_def await_def
      dest: debug_console split: answer.splits if_splits step.splits)

lemma getStagedDiff_eq:
  "getStagedDiff env target_dir =
     (case git_diff_cached env target_dir of
        Resolves diff \<Rightarrow> ([GitDiffCached target_dir], Next diff)
      | Rejects error \<Rightarrow>
          ([GitDiffCached target_dir, ConsoleError [S ''Error getting git diff:'', E error]],
           Halt (Threw error)))"
  by (simp add: getStagedDiff_def emit_def console_error_def halt_def split: answer.splits)

lemma staged_diff_events:
  "e \<in> set (fst (staged_diff env options target_dir)) \<Longrightarrow>
     is_console e \<or> e = GitDiffCached target_dir"
  by (auto simp: staged_diff_def getStagedDiff_eq fst_io_bind console_error_def emit_def halt_def
      io_return_def dest: debug_console split: answer.splits if_splits step.splits)

lemma trim_empty [simp]: "trim [] = []"
  by (simp add: trim_def)

lemma staged_diff_blank:
  "git_diff_cached env target_dir = Resolves diff \<Longrightarrow> trim diff = [] \<Longrightarrow>
     snd (staged_diff env options target_dir) = Halt (Exit 1)"
  by (simp add: staged_diff_def getStagedDiff_eq snd_io_bind console_error_def emit_def halt_def)

lemma staged_diff_Next:
  "snd (staged_diff env options target_dir) = Next diff \<Longrightarrow>
     git_diff_cached env target_dir = Resolves diff \<and> trim diff \<noteq> []"
  by (auto simp: staged_diff_def getStagedDiff_eq snd_io_bind console_error_def emit_def halt_def
      io_return_def split: answer.splits if_splits)

lemma dispatch_openai_no_key:
  "\<not> truthy (field config ''OPENAI_API_KEY'') \<Longrightarrow>
     dispatch_openai env options config rendered =
       ([ConsoleError [S ''OPENAI_API_KEY is not set'']], Halt (Exit 1))"
  by (simp add: dispatch_openai_def console_error_def emit_def halt_def)

lemma dispatch_ollama_events:
  "e \<in> set (fst (dispatch_ollama env options config rendered)) \<Longrightarrow>
     is_console e \<or> e = OllamaChat (js_or (field config ''ollama_model'') (JStr ''llama3'')) [(''user'', rendered)]"
  by (auto simp: dispatch_ollama_def Let_def io_catch_def fst_io_bind snd_io_bind console_error_def
      console_log_def emit_def halt_def await_def lift_result_def
      dest: debug_console split: answer.splits if_splits step.splits result.splits outcome.splits)

lemma dispatch_openai_events:
  "e \<in> set (fst (dispatch_openai env options config rendered)) \<Longrightarrow>
     is_console e \<or> is_request e"
  by (auto simp: dispatch_openai_def Let_def io_catch_def fst_io_bind snd_io_bind console_error_def
      console_log_def emit_def halt_def await_def lift_result_def
      dest: debug_console split: answer.splits if_splits step.splits result.splits outcome.splits)

section \<open>A run as a whole\<close>

lemma console_not_request: "is_console e \<Longrightarrow> \<not> is_request e"
  by (cases e) simp_all

lemma run_load_fails:
  "load_config env st = Throw e \<Longrightarrow> run env st options templateName = ([], Halt (Threw e))"
  by (simp add: run_def)

lemma getModels_load_fails:
  "load_config env st = Throw e \<Longrightarrow> getModels env st = ([], Halt (Threw e))"
  by (simp add: getModels_def)

lemma run_reaches_dispatch:
  assumes "load_config env st = Ok config"
    and "snd (template_path options config templateName) = Next path"
    and "snd (read_template (files st) options path) = Next template"
    and "snd (working_directory env options) = Next target_dir"
    and "snd (staged_diff env options target_dir) = Next diff"
  shows "run env st options templateName =
     (fst (debug options [S ''Configuration loaded successfully.''])
      @ fst (template_path options config templateName)
      @ fst (read_template (files st) options path)
      @ fst (working_directory env options)
      @ fst (staged_diff env options target_dir)
      @ fst (debug options [S ''Template rendered with git diff.''])
      @ fst (dispatch env options config (render_template template diff)),
      snd (dispatch env options config (render_template template diff)))"
  using assms by (simp add: run_def prod_eq_iff fst_io_bind snd_io_bind)

lemma run_events_before_dispatch:
  assumes "load_config env st = Ok config"
    and "e \<in> set (fst (run env st options templateName))"
  shows "is_console e \<or> (\<exists>dir. e = GitDiffCached dir)
     \<or> (\<exists>rendered. e \<in> set (fst (dispatch env options config rendered)))"
  using assms
  by (auto simp: run_def fst_io_bind split: step.splits
      dest: debug_console template_path_console read_template_console working_directory_console
        staged_diff_events)


section \<open>A configuration file that is not JSON\<close>

text \<open>
  C5, as the code has it. When the configuration file exists and its text is not JSON,
  \<open>readConfigFile\<close> fails with the decoder's \<open>SyntaxError\<close>. The error
  propagates out of \<open>setConfigs\<close>, \<open>getModels\<close> and \<open>run\<close>, none of which
  has done anything by then. \<open>showConfigUI\<close> catches it: it prints the message of the
  error between two line feeds and returns normally.
\<close>

theorem corrupt_config_propagation:
  "files st (configPath env) = Some text \<and> JSON_parse env text = None \<longrightarrow>
     readConfigFile env st = Throw SyntaxError
     \<and> setConfigs env st keyValues = (Throw SyntaxError, st)
     \<and> getModels env st = ([], Halt (Threw SyntaxError))
     \<and> run env st options templateName = ([], Halt (Threw SyntaxError))
     \<and> showConfigUI env st menu
         = (([ConsoleError [S [CHR 0x0A], M SyntaxError, S [CHR 0x0A]]], Next ()), st)"
proof (intro impI)
  assume "files st (configPath env) = Some text \<and> JSON_parse env text = None"
  then have r: "readConfigFile env st = Throw SyntaxError"
    by (simp add: readConfigFile_def)
  then have l: "load_config env st = Throw SyntaxError"
    by (simp add: load_config_def)
  have "showConfigUI env st menu
      = (([ConsoleError [S [CHR 0x0A], M SyntaxError, S [CHR 0x0A]]], Next ()), st)"
    by (simp add: showConfigUI_def r show_error_def console_error_def emit_def)
  with r l show "readConfigFile env st = Throw SyntaxError
     \<and> setConfigs env st keyValues = (Throw SyntaxError, st)
     \<and> getModels env st = ([], Halt (Threw SyntaxError))
     \<and> run env st options templateName = ([], Halt (Threw SyntaxError))
     \<and> showConfigUI env st menu
         = (([ConsoleError [S [CHR 0x0A], M SyntaxError, S [CHR 0x0A]]], Next ()), st)"
    by (simp add: run_load_fails getModels_load_fails setConfigs_def)
qed

text \<open>
  The claim C5 as stated has the error propagate out of every caller. \<open>showConfigUI\<close>
  on a configuration file that is not JSON returns normally.
\<close>

theorem showConfigUI_swallows_counterexample:
  "readConfigFile example_env (module_loaded example_env corrupt_files) = Throw SyntaxError
   \<and> fst (showConfigUI example_env (module_loaded example_env corrupt_files) idle_menu)
       = ([ConsoleError [S [CHR 0x0A], M SyntaxError, S [CHR 0x0A]]], Next ())
   \<and> snd (fst (showConfigUI example_env (module_loaded example_env corrupt_files) idle_menu))
       \<noteq> Halt (Threw SyntaxError)"
  by (simp add: showConfigUI_def readConfigFile_def corrupt_files_def configPath_def example_env_def
      example_parse_def show_error_def console_error_def emit_def)

theorem corrupt_config_propagation_witness:
  \<open>files (module_loaded example_env corrupt_files) (configPath example_env) = Some ''{"model":''
   \<and> JSON_parse example_env ''{"model":'' = None
   \<and> readConfigFile example_env (module_loaded example_env corrupt_files) = Throw SyntaxError
   \<and> setConfigs example_env (module_loaded example_env corrupt_files) [(''model'', Plain (JStr ''m''))]
       = (Throw SyntaxError, module_loaded example_env corrupt_files)
   \<and> getModels example_env (module_loaded example_env corrupt_files) = ([], Halt (Threw SyntaxError))
   \<and> run example_env (module_loaded example_env corrupt_files) quiet_options None
       = ([], Halt (Threw SyntaxError))
   \<and> showConfigUI example_env (module_loaded example_env corrupt_files) idle_menu
       = (([ConsoleError [S [CHR 0x0A], M SyntaxError, S [CHR 0x0A]]], Next ()),
          module_loaded example_env corrupt_files)\<close>
  using corrupt_config_propagation [of "module_loaded example_env corrupt_files" example_env
      \<open>''{"model":''\<close> "[(''model'', Plain (JStr ''m''))]" quiet_options None idle_menu]
  by (simp add: corrupt_files_def configPath_def example_env_def example_parse_def)
section \<open>An empty staged diff\<close>

text \<open>
  C8. In every run that retrieves the staged diff of a directory, if that diff is the
  empty string then the process exits with code 1 and the run issues no request: neither
  chat endpoint is called.
\<close>

theorem empty_diff_exits_without_request:
  "GitDiffCached dir \<in> set (fst (run env st options templateName))
     \<and> git_diff_cached env dir = Resolves [] \<longrightarrow>
       snd (run env st options templateName) = Halt (Exit 1)
       \<and> (\<forall>e \<in> set (fst (run env st options templateName)). \<not> is_request e)"
proof (intro impI)
  assume a: "GitDiffCached dir \<in> set (fst (run env st options templateName))
     \<and> git_diff_cached env dir = Resolves []"
  have blank: "snd (staged_diff env options dir) = Halt (Exit 1)"
    using a by (simp add: staged_diff_blank)
  have no_git: "\<And>rendered config. GitDiffCached dir \<notin> set (fst (dispatch env options config rendered))"
    by (auto simp: dispatch_def dest: dispatch_ollama_events dispatch_openai_events)
  from a have reached: "GitDiffCached dir \<in> set (fst (run env st options templateName))"
    by simp
  obtain config where config: "load_config env st = Ok config"
    using reached by (cases "load_config env st") (simp_all add: run_def)
  have quiet: "\<And>e. e \<in> set (fst (staged_diff env options dir)) \<Longrightarrow> \<not> is_request e"
    by (auto dest!: staged_diff_events dest: console_not_request)
  from reached show "snd (run env st options templateName) = Halt (Exit 1)
       \<and> (\<forall>e \<in> set (fst (run env st options templateName)). \<not> is_request e)"
    using blank no_git quiet
    by (auto simp: run_def config fst_io_bind snd_io_bind split: step.splits
        dest: debug_console template_path_console read_template_console working_directory_console
          staged_diff_events console_not_request)
qed

theorem empty_diff_exits_without_request_witness:
  "run example_env (module_loaded example_env template_files) quiet_options None
     = ([GitDiffCached ''/repo'', ConsoleError [S ''No changes to commit in /repo'']], Halt (Exit 1))
   \<and> git_diff_cached example_env ''/repo'' = Resolves []
   \<and> snd (run example_env (module_loaded example_env template_files) quiet_options None) = Halt (Exit 1)
   \<and> filter is_request (fst (run example_env (module_loaded example_env template_files) quiet_options None)) = []"
  using empty_diff_exits_without_request [of "''/repo''" example_env "module_loaded example_env template_files"
      quiet_options None]
  by (simp add: run_def load_config_no_file config_value_module_loaded template_files_def configPath_def example_env_def
      DEFAULT_CONFIG_def template_path_def default_template_path_def field_def read_template_def
      working_directory_def staged_diff_def getStagedDiff_eq debug_def quiet_options_def
      io_return_def console_error_def emit_def halt_def trim_def is_js_space_def)

section \<open>The local provider\<close>

lemma fst_io_catch:
  "fst (io_catch m h) = fst m @ (case snd m of Halt (Threw e) \<Rightarrow> fst (h e) | _ \<Rightarrow> [])"
  by (simp add: io_catch_def split: step.splits outcome.splits)

lemma snd_io_catch:
  "snd (io_catch m h) = (case snd m of Halt (Threw e) \<Rightarrow> snd (h e) | _ \<Rightarrow> snd m)"
  by (simp add: io_catch_def split: step.splits outcome.splits)

lemma filter_console: "(\<And>e. e \<in> set es \<Longrightarrow> is_console e) \<Longrightarrow> filter is_request es = []"
  by (induction es) (auto dest: console_not_request)

lemma ollama_reply_console:
  "e \<in> set (fst (io_bind (await answer)
       (\<lambda>response. io_bind (lift_result (message_content response))
       (\<lambda>content.
          if \<not> truthy content then
            io_bind (console_error [S ''Failed to generate commit message from Ollama''])
              (\<lambda>u. halt (Exit 1))
          else
            io_bind (lift_result (trim_method content))
              (\<lambda>trimmed. io_bind (console_log [S trimmed])
              (\<lambda>u. debug options [S ''Commit message generated and outputted.'']))))))
   \<Longrightarrow> is_console e"
  by (auto simp: fst_io_bind console_error_def console_log_def emit_def halt_def await_def
      lift_result_def
      dest: debug_console split: answer.splits if_splits step.splits result.splits)

lemma dispatch_ollama_requests:
  "filter is_request (fst (dispatch_ollama env options config rendered)) =
     [OllamaChat (js_or (field config ''ollama_model'') (JStr ''llama3'')) [(''user'', rendered)]]"
proof -
  define model where "model = js_or (field config ''ollama_model'') (JStr ''llama3'')"
  define line where "line =
    [S ''Sending request to Ollama at '',
     V (js_or (field config ''ollama_endpoint'') (JStr ''http://localhost:11434'')),
     S '' with model '', V model, S ''...'']"
  define reply where "reply = io_bind (await (ollama_chat env model [(''user'', rendered)]))
       (\<lambda>response. io_bind (lift_result (message_content response))
       (\<lambda>content.
          if \<not> truthy content then
            io_bind (console_error [S ''Failed to generate commit message from Ollama''])
              (\<lambda>u. halt (Exit 1))
          else
            io_bind (lift_result (trim_method content))
              (\<lambda>trimmed. io_bind (console_log [S trimmed])
              (\<lambda>u. debug options [S ''Commit message generated and outputted.'']))))"
  define handler where "handler =
    (\<lambda>error. io_bind (console_error [S ''Failed to fetch from Ollama: '', E error])
       (\<lambda>u. halt (Exit 1 :: outcome) :: unit io))"
  have d: "dispatch_ollama env options config rendered =
      io_catch (io_bind (debug options line)
        (\<lambda>u. io_bind (emit (OllamaChat model [(''user'', rendered)])) (\<lambda>u. reply))) handler"
    by (simp add: dispatch_ollama_def Let_def model_def line_def reply_def handler_def)
  have r: "filter is_request (fst reply) = []"
    unfolding reply_def by (rule filter_console) (rule ollama_reply_console)
  have h: "\<And>e. filter is_request (fst (handler e)) = []"
    by (simp add: handler_def console_error_def emit_def halt_def)
  have dbg: "filter is_request (fst (debug options line)) = []"
    by (rule filter_console) (rule debug_console)
  have body: "filter is_request (fst (io_bind (debug options line)
        (\<lambda>u. io_bind (emit (OllamaChat model [(''user'', rendered)])) (\<lambda>u. reply))))
      = [OllamaChat model [(''user'', rendered)]]"
    by (simp add: fst_io_bind dbg r emit_def)
  have "filter is_request (fst (dispatch_ollama env options config rendered))
      = [OllamaChat model [(''user'', rendered)]]"
    unfolding d fst_io_catch
    by (simp add: body h split: step.splits outcome.splits)
  then show ?thesis
    by (simp add: model_def)
qed

lemma dispatch_ollama_snd:
  assumes "field config1 ''ollama_model'' = field config2 ''ollama_model''"
  shows "snd (dispatch_ollama env options config1 rendered)
    = snd (dispatch_ollama env options config2 rendered)"
  unfolding dispatch_ollama_def Let_def assms snd_io_catch snd_io_bind snd_debug
  by (rule refl)

lemma dispatch_ollama_quiet:
  "field config1 ''ollama_model'' = field config2 ''ollama_model'' \<Longrightarrow> \<not> verbose options \<Longrightarrow>
     dispatch_ollama env options config1 rendered = dispatch_ollama env options config2 rendered"
  by (simp add: dispatch_ollama_def Let_def debug_def)

lemma filter_no_request: "(\<And>e. e \<in> set es \<Longrightarrow> \<not> is_request e) \<Longrightarrow> filter is_request es = []"
  by (induction es) auto

lemma run_requests_at_dispatch:
  assumes "load_config env st = Ok config"
    and "snd (template_path options config templateName) = Next path"
    and "snd (read_template (files st) options path) = Next template"
    and "snd (working_directory env options) = Next target_dir"
    and "snd (staged_diff env options target_dir) = Next diff"
  shows "filter is_request (fst (run env st options templateName)) =
      filter is_request (fst (dispatch env options config (render_template template diff)))"
proof -
  have 1: "\<And>ps. filter is_request (fst (debug options ps)) = []"
    by (rule filter_console) (rule debug_console)
  have 2: "filter is_request (fst (template_path options config templateName)) = []"
    by (rule filter_console) (rule template_path_console)
  have 3: "filter is_request (fst (read_template (files st) options path)) = []"
    by (rule filter_console) (rule read_template_console)
  have 4: "filter is_request (fst (working_directory env options)) = []"
    by (rule filter_console) (rule working_directory_console)
  have 5: "filter is_request (fst (staged_diff env options target_dir)) = []"
    by (rule filter_no_request) (auto dest!: staged_diff_events dest: console_not_request)
  show ?thesis
    unfolding run_reaches_dispatch [OF assms]
    by (simp add: 1 2 3 4 5)
qed

section \<open>The endpoint of the local provider\<close>

text \<open>
  C9. In the local-provider dispatch of \<open>run\<close> the chat request does not depend on
  \<open>config.ollama_endpoint\<close>. The one request of the dispatch is \<open>ollama.chat\<close>
  with the model \<open>config.ollama_model || "llama3"\<close> and the rendered template as
  the single user message, on the library's default client. For two configurations that
  differ at most in \<open>ollama_endpoint\<close> the requests are the same and the dispatch
  ends the same way; with \<open>verbose\<close> off the two dispatches are equal altogether, so
  the endpoint shows in the verbose line only.
\<close>

theorem ollama_request_ignores_endpoint:
  "(\<forall>key. key \<noteq> ''ollama_endpoint'' \<longrightarrow> field config1 key = field config2 key) \<longrightarrow>
     filter is_request (fst (dispatch_ollama env options config1 rendered))
       = [OllamaChat (js_or (field config1 ''ollama_model'') (JStr ''llama3'')) [(''user'', rendered)]]
     \<and> filter is_request (fst (dispatch_ollama env options config2 rendered))
       = filter is_request (fst (dispatch_ollama env options config1 rendered))
     \<and> snd (dispatch_ollama env options config2 rendered)
       = snd (dispatch_ollama env options config1 rendered)
     \<and> (\<not> verbose options \<longrightarrow>
          dispatch_ollama env options config2 rendered = dispatch_ollama env options config1 rendered)"
proof (intro impI)
  assume "\<forall>key. key \<noteq> ''ollama_endpoint'' \<longrightarrow> field config1 key = field config2 key"
  then have m: "field config2 ''ollama_model'' = field config1 ''ollama_model''"
    by simp
  have "\<not> verbose options \<longrightarrow>
          dispatch_ollama env options config2 rendered = dispatch_ollama env options config1 rendered"
    using dispatch_ollama_quiet [OF m] by simp
  then show "filter is_request (fst (dispatch_ollama env options config1 rendered))
       = [OllamaChat (js_or (field config1 ''ollama_model'') (JStr ''llama3'')) [(''user'', rendered)]]
     \<and> filter is_request (fst (dispatch_ollama env options config2 rendered))
       = filter is_request (fst (dispatch_ollama env options config1 rendered))
     \<and> snd (dispatch_ollama env options config2 rendered)
       = snd (dispatch_ollama env options config1 rendered)
     \<and> (\<not> verbose options \<longrightarrow>
          dispatch_ollama env options config2 rendered = dispatch_ollama env options config1 rendered)"
    by (simp add: dispatch_ollama_requests m dispatch_ollama_snd [OF m])
qed

theorem ollama_request_ignores_endpoint_witness:
  "filter (\<lambda>entry. fst entry \<noteq> ''ollama_endpoint'') (local_config ''http://localhost:11434'')
     = filter (\<lambda>entry. fst entry \<noteq> ''ollama_endpoint'') (local_config ''http://10.0.0.5:11434'')
   \<and> dispatch_ollama example_env verbose_options (local_config ''http://localhost:11434'') ''msg: +x''
       = ([ConsoleDebug [S ''Sending request to Ollama at '', V (JStr ''http://localhost:11434''),
             S '' with model '', V (JStr ''gemma3:4b''), S ''...''],
           OllamaChat (JStr ''gemma3:4b'') [(''user'', ''msg: +x'')],
           ConsoleError [S ''Failed to fetch from Ollama: '', E (External ''connection refused'')]],
          Halt (Exit 1))
   \<and> filter is_request
        (fst (dispatch_ollama example_env verbose_options (local_config ''http://10.0.0.5:11434'') ''msg: +x''))
       = [OllamaChat (JStr ''gemma3:4b'') [(''user'', ''msg: +x'')]]
   \<and> snd (dispatch_ollama example_env verbose_options (local_config ''http://10.0.0.5:11434'') ''msg: +x'')
       = Halt (Exit 1)
   \<and> dispatch_ollama example_env quiet_options (local_config ''http://10.0.0.5:11434'') ''msg: +x''
       = dispatch_ollama example_env quiet_options (local_config ''http://localhost:11434'') ''msg: +x''"
  using ollama_request_ignores_endpoint [of "local_config ''http://localhost:11434''"
      "local_config ''http://10.0.0.5:11434''" example_env verbose_options "''msg: +x''"]
    ollama_request_ignores_endpoint [of "local_config ''http://localhost:11434''"
      "local_config ''http://10.0.0.5:11434''" example_env quiet_options "''msg: +x''"]
  by (simp add: local_config_def field_def dispatch_ollama_def Let_def js_or_def debug_def
      verbose_options_def quiet_options_def example_env_def emit_def console_error_def halt_def
      io_return_def)


section \<open>The model of the local provider\<close>

text \<open>
  C10. When \<open>config.ollama_model\<close> is unset or empty (falsy), the local-provider
  dispatch sends its chat request with the model \<open>llama3\<close>, and so does a run that
  reaches the dispatch. That differs from \<open>gemma3:4b\<close>, which is the
  \<open>ollama_model\<close> of the default configuration and the model \<open>getModels\<close>
  falls back to when the local catalogue is empty.
\<close>

theorem ollama_model_fallbacks:
  "(\<not> truthy (field config ''ollama_model'') \<longrightarrow>
      filter is_request (fst (dispatch_ollama env options config rendered))
        = [OllamaChat (JStr ''llama3'') [(''user'', rendered)]])
   \<and> (load_config env st = Ok config \<and> field config ''provider'' = JStr ''ollama''
       \<and> \<not> truthy (field config ''ollama_model'')
       \<and> snd (template_path options config templateName) = Next path
       \<and> snd (read_template (files st) options path) = Next template
       \<and> snd (working_directory env options) = Next target_dir
       \<and> snd (staged_diff env options target_dir) = Next diff \<longrightarrow>
      filter is_request (fst (run env st options templateName))
        = [OllamaChat (JStr ''llama3'') [(''user'', render_template template diff)]])
   \<and> field (DEFAULT_CONFIG env) ''ollama_model'' = JStr ''gemma3:4b''
   \<and> JStr ''llama3'' \<noteq> field (DEFAULT_CONFIG env) ''ollama_model''
   \<and> (load_config env st = Ok config \<and> field config ''provider'' = JStr ''ollama''
       \<and> \<not> truthy (field config ''ollama_model'')
       \<and> snd (getOllamaModels env
                (js_or (field config ''ollama_endpoint'') (JStr ''http://localhost:11434''))) = Next [] \<longrightarrow>
      snd (getModels env st) = Next [JStr ''gemma3:4b''])"
proof (intro conjI impI)
  assume "\<not> truthy (field config ''ollama_model'')"
  then show "filter is_request (fst (dispatch_ollama env options config rendered))
        = [OllamaChat (JStr ''llama3'') [(''user'', rendered)]]"
    by (simp add: dispatch_ollama_requests js_or_def)
next
  assume a: "load_config env st = Ok config \<and> field config ''provider'' = JStr ''ollama''
       \<and> \<not> truthy (field config ''ollama_model'')
       \<and> snd (template_path options config templateName) = Next path
       \<and> snd (read_template (files st) options path) = Next template
       \<and> snd (working_directory env options) = Next target_dir
       \<and> snd (staged_diff env options target_dir) = Next diff"
  then have "filter is_request (fst (run env st options templateName)) =
      filter is_request (fst (dispatch env options config (render_template template diff)))"
    by (simp add: run_requests_at_dispatch)
  with a show "filter is_request (fst (run env st options templateName))
        = [OllamaChat (JStr ''llama3'') [(''user'', render_template template diff)]]"
    by (simp add: dispatch_def dispatch_ollama_requests js_or_def)
next
  show "field (DEFAULT_CONFIG env) ''ollama_model'' = JStr ''gemma3:4b''"
    by (simp add: field_def DEFAULT_CONFIG_def)
next
  show "JStr ''llama3'' \<noteq> field (DEFAULT_CONFIG env) ''ollama_model''"
    by (simp add: field_def DEFAULT_CONFIG_def)
next
  assume "load_config env st = Ok config \<and> field config ''provider'' = JStr ''ollama''
       \<and> \<not> truthy (field config ''ollama_model'')
       \<and> snd (getOllamaModels env
                (js_or (field config ''ollama_endpoint'') (JStr ''http://localhost:11434''))) = Next []"
  then show "snd (getModels env st) = Next [JStr ''gemma3:4b'']"
    by (simp add: getModels_def snd_io_bind io_return_def js_or_def)
qed

theorem ollama_model_fallbacks_witness:
  \<open>load_config example_env (module_loaded example_env ollama_files)
     = Ok [(''provider'', JStr ''ollama''),
           (''OPENAI_API_KEY'', JStr []),
           (''model'', JStr ''gpt-4-0125-preview''),
           (''ollama_endpoint'', JStr ''http://localhost:11434''),
           (''ollama_model'', JStr []),
           (''templates'', JObj [(''default'', JStr ''/home/u/.bunnai-template'')])]
   \<and> run (diff_env ''+pid=1'') (module_loaded example_env ollama_files) quiet_options None
       = ([GitDiffCached ''/repo'',
           OllamaChat (JStr ''llama3'') [(''user'', ''msg: +pid=1'')],
           ConsoleError [S ''Failed to fetch from Ollama: '', E (External ''connection refused'')]],
          Halt (Exit 1))
   \<and> filter is_request (fst (run (diff_env ''+pid=1'') (module_loaded example_env ollama_files) quiet_options None))
       = [OllamaChat (JStr ''llama3'') [(''user'', ''msg: +pid=1'')]]
   \<and> field (DEFAULT_CONFIG example_env) ''ollama_model'' = JStr ''gemma3:4b''
   \<and> getModels example_env (module_loaded example_env ollama_files)
       = ([Fetch ''http://localhost:11434/api/tags'',
           ConsoleError [S ''Error fetching Ollama models:'', E (External ''connection refused'')]],
          Next [JStr ''gemma3:4b''])\<close>
  using ollama_model_fallbacks [of
      "[(''provider'', JStr ''ollama''),
           (''OPENAI_API_KEY'', JStr []),
           (''model'', JStr ''gpt-4-0125-preview''),
           (''ollama_endpoint'', JStr ''http://localhost:11434''),
           (''ollama_model'', JStr []),
           (''templates'', JObj [(''default'', JStr ''/home/u/.bunnai-template'')])]"
      "diff_env ''+pid=1''" quiet_options "''msg: +pid=1''"
      "module_loaded example_env ollama_files" None
      "JStr ''/home/u/.bunnai-template''" "''msg: {{diff}}''" "''/repo''" "''+pid=1''"]
  by (simp add: run_def load_config_def readConfigFile_def config_value_def fields_of_def fields_value_def cval_value_def
      module_loaded_def templates_addr_def assign_fields_def plain_entries_def
      ollama_files_def configPath_def example_env_def diff_env_def
      example_parse_def spread_def assign_all_def DEFAULT_CONFIG_def template_path_def
      default_template_path_def field_def read_template_def working_directory_def staged_diff_def
      getStagedDiff_eq debug_def quiet_options_def io_return_def console_error_def emit_def halt_def
      trim_def is_js_space_def render_template_def js_replace_def dispatch_def dispatch_ollama_def
      js_or_def getModels_def getOllamaModels_string tags_url_def strip_trailing_slash_def)


section \<open>A missing credential\<close>

text \<open>
  C7, as the code has it. With a provider other than \<open>ollama\<close> and a falsy
  \<open>OPENAI_API_KEY\<close>, no run issues a request. A run that gets as far as the
  dispatch (the template is resolved and read, the working directory is known, the
  staged diff is not blank) prints \<open>OPENAI_API_KEY is not set\<close> as its last line
  and exits with code 1. \<open>getModels\<close> throws \<open>Error("OPENAI_API_KEY is not set")\<close>
  without having done anything.
\<close>

theorem missing_key_stops_before_request:
  "load_config env st = Ok config \<and> field config ''provider'' \<noteq> JStr ''ollama''
     \<and> \<not> truthy (field config ''OPENAI_API_KEY'') \<longrightarrow>
       (\<forall>e \<in> set (fst (run env st options templateName)). \<not> is_request e)
       \<and> (snd (template_path options config templateName) = Next path
           \<and> snd (read_template (files st) options path) = Next template
           \<and> snd (working_directory env options) = Next target_dir
           \<and> snd (staged_diff env options target_dir) = Next diff \<longrightarrow>
             snd (run env st options templateName) = Halt (Exit 1)
             \<and> last (fst (run env st options templateName)) = ConsoleError [S ''OPENAI_API_KEY is not set''])
       \<and> getModels env st = ([], Halt (Threw (Error ''OPENAI_API_KEY is not set'')))"
proof (intro impI)
  assume a: "load_config env st = Ok config \<and> field config ''provider'' \<noteq> JStr ''ollama''
     \<and> \<not> truthy (field config ''OPENAI_API_KEY'')"
  then have d: "\<And>rendered. dispatch env options config rendered =
      ([ConsoleError [S ''OPENAI_API_KEY is not set'']], Halt (Exit 1))"
    by (simp add: dispatch_def dispatch_openai_no_key)
  have quiet: "\<forall>e \<in> set (fst (run env st options templateName)). \<not> is_request e"
  proof
    fix e assume e: "e \<in> set (fst (run env st options templateName))"
    from a have r: "load_config env st = Ok config" by simp
    have "is_console e \<or> (\<exists>dir. e = GitDiffCached dir)
        \<or> (\<exists>rendered. e \<in> set (fst (dispatch env options config rendered)))"
      by (rule run_events_before_dispatch [OF r e])
    then show "\<not> is_request e"
      by (auto simp: d dest: console_not_request)
  qed
  have reach: "snd (template_path options config templateName) = Next path
           \<and> snd (read_template (files st) options path) = Next template
           \<and> snd (working_directory env options) = Next target_dir
           \<and> snd (staged_diff env options target_dir) = Next diff \<longrightarrow>
             snd (run env st options templateName) = Halt (Exit 1)
             \<and> last (fst (run env st options templateName)) = ConsoleError [S ''OPENAI_API_KEY is not set'']"
  proof (intro impI)
    assume b: "snd (template_path options config templateName) = Next path
           \<and> snd (read_template (files st) options path) = Next template
           \<and> snd (working_directory env options) = Next target_dir
           \<and> snd (staged_diff env options target_dir) = Next diff"
    have r: "load_config env st = Ok config" using a by simp
    show "snd (run env st options templateName) = Halt (Exit 1)
             \<and> last (fst (run env st options templateName)) = ConsoleError [S ''OPENAI_API_KEY is not set'']"
      using b by (simp add: run_reaches_dispatch [OF r, of options templateName path template target_dir diff] d)
  qed
  have "getModels env st = ([], Halt (Threw (Error ''OPENAI_API_KEY is not set'')))"
    using a by (simp add: getModels_def halt_def)
  with quiet reach show "(\<forall>e \<in> set (fst (run env st options templateName)). \<not> is_request e)
       \<and> (snd (template_path options config templateName) = Next path
           \<and> snd (read_template (files st) options path) = Next template
           \<and> snd (working_directory env options) = Next target_dir
           \<and> snd (staged_diff env options target_dir) = Next diff \<longrightarrow>
             snd (run env st options templateName) = Halt (Exit 1)
             \<and> last (fst (run env st options templateName)) = ConsoleError [S ''OPENAI_API_KEY is not set''])
       \<and> getModels env st = ([], Halt (Threw (Error ''OPENAI_API_KEY is not set'')))"
    by blast
qed

text \<open>
  The claim C7 as stated has every run with the cloud provider and an empty key print
  the credential message. With the default configuration and an empty staged diff the
  run stops one stage earlier, on the message about the diff.
\<close>

theorem missing_key_empty_diff_counterexample:
  "load_config example_env (module_loaded example_env template_files) = Ok (DEFAULT_CONFIG example_env)
   \<and> field (DEFAULT_CONFIG example_env) ''provider'' = JStr ''openai''
   \<and> field (DEFAULT_CONFIG example_env) ''OPENAI_API_KEY'' = JStr []
   \<and> run example_env (module_loaded example_env template_files) quiet_options None
       = ([GitDiffCached ''/repo'', ConsoleError [S ''No changes to commit in /repo'']], Halt (Exit 1))
   \<and> ConsoleError [S ''OPENAI_API_KEY is not set'']
       \<notin> set (fst (run example_env (module_loaded example_env template_files) quiet_options None))"
  by (simp add: run_def load_config_def readConfigFile_def config_value_def fields_of_def fields_value_def cval_value_def
      module_loaded_def templates_addr_def assign_fields_def plain_entries_def
      template_files_def configPath_def example_env_def
      DEFAULT_CONFIG_def template_path_def default_template_path_def field_def read_template_def
      working_directory_def staged_diff_def getStagedDiff_eq debug_def quiet_options_def
      io_return_def console_error_def emit_def halt_def trim_def is_js_space_def)

theorem missing_key_stops_before_request_witness:
  "load_config (diff_env ''+pid=1'') (module_loaded example_env template_files) = Ok (DEFAULT_CONFIG (diff_env ''+pid=1''))
   \<and> field (DEFAULT_CONFIG (diff_env ''+pid=1'')) ''provider'' \<noteq> JStr ''ollama''
   \<and> \<not> truthy (field (DEFAULT_CONFIG (diff_env ''+pid=1'')) ''OPENAI_API_KEY'')
   \<and> run (diff_env ''+pid=1'') (module_loaded example_env template_files) quiet_options None
       = ([GitDiffCached ''/repo'', ConsoleError [S ''OPENAI_API_KEY is not set'']], Halt (Exit 1))
   \<and> filter is_request (fst (run (diff_env ''+pid=1'') (module_loaded example_env template_files) quiet_options None)) = []
   \<and> getModels (diff_env ''+pid=1'') (module_loaded example_env template_files)
       = ([], Halt (Threw (Error ''OPENAI_API_KEY is not set'')))"
  using missing_key_stops_before_request [of "diff_env ''+pid=1''" "module_loaded example_env template_files"
      "DEFAULT_CONFIG (diff_env ''+pid=1'')" quiet_options None
      "JStr ''/home/u/.bunnai-template''" "''msg: {{diff}}''" "''/repo''" "''+pid=1''"]
  by (simp add: run_def load_config_def readConfigFile_def config_value_def fields_of_def fields_value_def cval_value_def
      module_loaded_def templates_addr_def assign_fields_def plain_entries_def
      template_files_def configPath_def example_env_def diff_env_def
      DEFAULT_CONFIG_def template_path_def default_template_path_def field_def read_template_def
      working_directory_def staged_diff_def getStagedDiff_eq debug_def quiet_options_def
      io_return_def console_error_def emit_def halt_def trim_def is_js_space_def
      dispatch_def dispatch_openai_def getModels_def)

end
